theory Spec2Isabelle
  imports Main
begin

section \<open>Values shared by the store, the controller and the adapter\<close>

text \<open>
  A JavaScript number that is a score: an integer rating, as the data model has it, or
  \<open>NaN\<close>, the one number for which every comparison is false. Fractions and the
  infinities are left out: the code only compares scores with 0, 1 and 5, where they
  behave like the integers around them. A \<open>number | null\<close> is a \<open>js_number option\<close>, with
  \<open>None\<close> for \<open>null\<close>. Field names follow the source; where one name is used by several
  object shapes (\<open>id\<close>, \<open>name\<close>, \<open>responseId\<close>, ...) the field carries the shape as a
  prefix.
\<close>

datatype js_number = Num int | NaN

text \<open>\<open>x < k\<close> and \<open>x > k\<close> for a number \<open>x\<close> and an integer literal \<open>k\<close>.\<close>

definition less_than :: "js_number \<Rightarrow> int \<Rightarrow> bool" where
  "less_than x k = (case x of Num n \<Rightarrow> n < k | NaN \<Rightarrow> False)"

definition greater_than :: "js_number \<Rightarrow> int \<Rightarrow> bool" where
  "greater_than x k = (case x of Num n \<Rightarrow> k < n | NaN \<Rightarrow> False)"

text \<open>Template literals print a number in decimal: \<open>`model-${index + 1}`\<close>.\<close>

definition digit_char :: "nat \<Rightarrow> char" where
  "digit_char d = ''0123456789'' ! d"

fun decimal_nat :: "nat \<Rightarrow> string" where
  "decimal_nat n = (if 10 \<le> n then decimal_nat (n div 10) else []) @ [digit_char (n mod 10)]"

definition decimal_int :: "int \<Rightarrow> string" where
  "decimal_int i = (if 0 \<le> i then decimal_nat (nat i) else CHR ''-'' # decimal_nat (nat (- i)))"

text \<open>\<open>Array.prototype.findIndex\<close>: the first index whose element satisfies the
  predicate; \<open>None\<close> stands for \<open>-1\<close>.\<close>

fun findIndex :: "('a \<Rightarrow> bool) \<Rightarrow> 'a list \<Rightarrow> nat option" where
  "findIndex P [] = None"
| "findIndex P (x # xs) = (if P x then Some 0 else map_option Suc (findIndex P xs))"

section \<open>Score matrix store and completion tracker (stores/evaluation)\<close>

text \<open>A metric record \<open>{id, name, description?, value}\<close> of a response slot.\<close>

record metric_record =
  metric_id :: string
  metric_name :: string
  metric_description :: "string option"
  metric_value :: "js_number option"

text \<open>An \<open>Evaluation\<close>: one response slot \<open>{responseId, metrics}\<close>.\<close>

record evaluation_slot =
  responseId :: string
  metrics :: "metric_record list"

text \<open>The store: \<open>evaluation\<close> maps a case id to its slots, \<open>doneForId\<close> holds the
  completion flags.\<close>

record evaluation_store =
  evaluation :: "string \<rightharpoonup> evaluation_slot list"
  doneForId :: "string \<rightharpoonup> bool"

text \<open>The payload of \<open>setEvaluation\<close>: \<open>{responseId, metricId, value}\<close>.\<close>

record score_payload =
  payload_responseId :: string
  payload_metricId :: string
  payload_value :: "js_number option"

text \<open>\<open>Array.from({ length: 3 }, (_, index) => ({ responseId: `model-${index + 1}`,
  metrics: [] }))\<close>\<close>

definition synthetic_slots :: "evaluation_slot list" where
  "synthetic_slots =
     map (\<lambda>index. \<lparr>responseId = ''model-'' @ decimal_nat (index + 1), metrics = []\<rparr>) [0..<3]"

text \<open>The metric record that \<open>setEvaluation\<close> pushes: \<open>{id, name: '', value}\<close>.\<close>

definition pushed_metric :: "score_payload \<Rightarrow> metric_record" where
  "pushed_metric payload =
     \<lparr>metric_id = payload_metricId payload, metric_name = '''',
      metric_description = None, metric_value = payload_value payload\<rparr>"

text \<open>The body of \<open>setEvaluation\<close> once the entry of the case exists, in two
  steps. Inside the slot of the response: find the metric record, push one when there is
  none (\<open>metricIndex === -1\<close>), overwrite its value when there is one.\<close>

definition edit_metrics :: "score_payload \<Rightarrow> metric_record list \<Rightarrow> metric_record list" where
  "edit_metrics payload ms =
     (case findIndex (\<lambda>metric. metric_id metric = payload_metricId payload) ms of
        None \<Rightarrow> ms @ [pushed_metric payload]
      | Some metricIndex \<Rightarrow>
          ms[metricIndex := (ms ! metricIndex)\<lparr>metric_value := payload_value payload\<rparr>])"

text \<open>On the entry: find the slot of the response; push a slot holding the one metric
  record when there is none (\<open>modelIndex === -1\<close>), edit the slot found otherwise.\<close>

definition edit_slots :: "score_payload \<Rightarrow> evaluation_slot list \<Rightarrow> evaluation_slot list" where
  "edit_slots payload slots =
     (case findIndex (\<lambda>model. responseId model = payload_responseId payload) slots of
        None \<Rightarrow>
          slots @ [\<lparr>responseId = payload_responseId payload, metrics = [pushed_metric payload]\<rparr>]
      | Some modelIndex \<Rightarrow>
          slots[modelIndex :=
            (slots ! modelIndex)\<lparr>metrics := edit_metrics payload (metrics (slots ! modelIndex))\<rparr>])"

text \<open>
  The store keeps its entries in a plain object, so \<open>state.evaluation[idx]\<close> also finds
  what every object inherits from \<open>Object.prototype\<close>: for these names the read gives a
  function (for \<open>__proto__\<close> the prototype itself), which is truthy and has no
  \<open>findIndex\<close>, unless the store has an entry of its own under the name.
\<close>

definition inherited_property :: "string \<Rightarrow> bool" where
  "inherited_property key \<longleftrightarrow>
     key \<in> set [''constructor'', ''hasOwnProperty'', ''isPrototypeOf'', ''propertyIsEnumerable'',
       ''toLocaleString'', ''toString'', ''valueOf'', ''__proto__'', ''__defineGetter__'',
       ''__defineSetter__'', ''__lookupGetter__'', ''__lookupSetter__'']"

text \<open>What a call can raise.\<close>

datatype js_error = TypeError

text \<open>The state \<open>setEvaluation(idx, payload)\<close> returns when it returns: an absent entry
  (\<open>!state.evaluation[idx]\<close>; an empty array is truthy) is first created with the three
  synthetic slots, then the entry is edited. The completion flags are not touched.\<close>

definition edited_store :: "string \<Rightarrow> score_payload \<Rightarrow> evaluation_store \<Rightarrow> evaluation_store" where
  "edited_store idx payload state =
     (let slots = (case evaluation state idx of None \<Rightarrow> synthetic_slots | Some e \<Rightarrow> e)
      in state\<lparr>evaluation := (evaluation state)(idx \<mapsto> edit_slots payload slots)\<rparr>)"

text \<open>\<open>setEvaluation(idx, payload)\<close>. When the case has no entry and \<open>idx\<close> names an
  inherited property, \<open>!state.evaluation[idx]\<close> is false, no slots are created, and
  \<open>newEvaluation[idx].findIndex(...)\<close> raises a \<open>TypeError\<close> before anything is written:
  the state stays as it was.\<close>

definition setEvaluation :: "string \<Rightarrow> score_payload \<Rightarrow> evaluation_store \<Rightarrow> js_error + evaluation_store" where
  "setEvaluation idx payload state =
     (if evaluation state idx = None \<and> inherited_property idx then Inl TypeError
      else Inr (edited_store idx payload state))"

text \<open>\<open>initAtId(idx, payload)\<close> replaces the entry of the case by a copy of the payload;
  on values the copy is the payload itself.\<close>

definition initAtId :: "string \<Rightarrow> evaluation_slot list \<Rightarrow> evaluation_store \<Rightarrow> evaluation_store" where
  "initAtId idx payload state =
     state\<lparr>evaluation := (evaluation state)
       (idx \<mapsto> map (\<lambda>model. model\<lparr>metrics := map (\<lambda>metric. metric) (metrics model)\<rparr>) payload)\<rparr>"

definition setDoneForId :: "string \<Rightarrow> bool \<Rightarrow> evaluation_store \<Rightarrow> evaluation_store" where
  "setDoneForId idx status state = state\<lparr>doneForId := (doneForId state)(idx \<mapsto> status)\<rparr>"

definition resetDoneStatus :: "evaluation_store \<Rightarrow> evaluation_store" where
  "resetDoneStatus state = state\<lparr>doneForId := Map.empty\<rparr>"

text \<open>How the metrics table reads a score back from an entry (EvaluationMetrics.tsx):
  the first slot with the response id, then the first metric record with the metric id.
  \<open>None\<close> when there is no such record, \<open>Some None\<close> for a stored \<open>null\<close>.
  \<open>stored_score\<close> reads the entry the store itself holds for the case.\<close>

definition read_score :: "evaluation_slot list \<Rightarrow> string \<Rightarrow> string \<Rightarrow> js_number option option" where
  "read_score slots rid mid =
     (case find (\<lambda>m. responseId m = rid) slots of
        None \<Rightarrow> None
      | Some model \<Rightarrow> map_option metric_value (find (\<lambda>x. metric_id x = mid) (metrics model)))"

definition stored_score :: "evaluation_store \<Rightarrow> string \<Rightarrow> string \<Rightarrow> string \<Rightarrow> js_number option option" where
  "stored_score state idx rid mid =
     (case evaluation state idx of None \<Rightarrow> None | Some slots \<Rightarrow> read_score slots rid mid)"

text \<open>All metric records of an entry that belong to a (response id, metric id) pair, in
  the order of the entry.\<close>

definition pair_records :: "string \<Rightarrow> string \<Rightarrow> evaluation_slot list \<Rightarrow> metric_record list" where
  "pair_records rid mid slots =
     concat (map (\<lambda>model. filter (\<lambda>x. metric_id x = mid) (metrics model))
       (filter (\<lambda>model. responseId model = rid) slots))"

definition entry_of :: "evaluation_store \<Rightarrow> string \<Rightarrow> evaluation_slot list" where
  "entry_of state idx = (case evaluation state idx of None \<Rightarrow> [] | Some slots \<Rightarrow> slots)"

text \<open>A run of \<open>setEvaluation\<close> calls on one (case, response, metric) triple, one call
  per value, in order; a call that raises ends the run. \<open>edited_stores\<close> is the state
  after a run in which no call raises.\<close>

fun set_scores :: "string \<Rightarrow> string \<Rightarrow> string \<Rightarrow> js_number option list \<Rightarrow> evaluation_store \<Rightarrow> js_error + evaluation_store" where
  "set_scores idx rid mid [] state = Inr state"
| "set_scores idx rid mid (v # vs) state =
     (case setEvaluation idx
             \<lparr>payload_responseId = rid, payload_metricId = mid, payload_value = v\<rparr> state of
        Inl e \<Rightarrow> Inl e
      | Inr state' \<Rightarrow> set_scores idx rid mid vs state')"

definition edited_stores :: "string \<Rightarrow> string \<Rightarrow> string \<Rightarrow> js_number option list \<Rightarrow> evaluation_store \<Rightarrow> evaluation_store" where
  "edited_stores idx rid mid values state =
     fold (\<lambda>v. edited_store idx
       \<lparr>payload_responseId = rid, payload_metricId = mid, payload_value = v\<rparr>) values state"

text \<open>The invariant of the data model on an entry: each response id appears at most
  once, and within a slot each metric id appears at most once.\<close>

definition wf_entry :: "evaluation_slot list \<Rightarrow> bool" where
  "wf_entry slots \<longleftrightarrow>
     distinct (map responseId slots) \<and>
     list_all (\<lambda>model. distinct (map metric_id (metrics model))) slots"

section \<open>Remote sync adapter (services/index.ts)\<close>

text \<open>A promise that has settled: resolved with a value, or rejected.\<close>

datatype 'a settled = Resolved 'a | Rejected

text \<open>The body of \<open>POST cases/evaluations/update/\<close>. The evaluator id is the
  \<open>doctorId\<close> URL parameter, which may be absent (\<open>null\<close>) on the edit path.\<close>

record update_request =
  req_caseId :: string
  req_responseId :: string
  req_metricId :: string
  req_evaluatorId :: "string option"
  req_score :: js_number

text \<open>The answer of the backend to an update, \<open>{status, progress?: {completed, total},
  message?}\<close>. The source reads \<open>status\<close>, \<open>progress.completed\<close> and
  \<open>progress.total\<close>; the answer is untyped there, so \<open>progress\<close> may be missing.\<close>

record progress_counters =
  progress_completed :: int
  progress_total :: int

record update_response =
  response_status :: string
  response_progress :: "progress_counters option"

text \<open>The backend as a run of requests sees it: the settled answer to the \<open>i\<close>-th
  request sent, given the request.\<close>

type_synonym update_server = "nat \<Rightarrow> update_request \<Rightarrow> update_response settled"

text \<open>\<open>instance.post('cases/evaluations/update/', data)\<close>, on the list of the requests
  sent so far: the request goes out, and the backend answers it.\<close>

definition post_update :: "update_server \<Rightarrow> update_request \<Rightarrow> update_request list \<Rightarrow> update_response settled \<times> update_request list" where
  "post_update server data sent = (server (length sent) data, sent @ [data])"

text \<open>\<open>updateSingleEvaluation(data)\<close> posts the request, returns \<open>response.data\<close> and
  rethrows a failure of the request.\<close>

definition updateSingleEvaluation :: "update_server \<Rightarrow> update_request \<Rightarrow> update_request list \<Rightarrow> update_response settled \<times> update_request list" where
  "updateSingleEvaluation server data sent =
     (case post_update server data sent of
        (Resolved response, sent') \<Rightarrow> (Resolved response, sent')
      | (Rejected, sent') \<Rightarrow> (Rejected, sent'))"

text \<open>An evaluation as \<open>GET cases/{id}/evaluations\<close> lists it; the fields the
  controller reads.\<close>

record remote_evaluation =
  model_response :: string
  metric :: string
  score :: int

text \<open>\<open>response.data\<close> of that request: the list, or anything that is not an array.\<close>

datatype evaluations_payload = EvaluationList "remote_evaluation list" | NotAnArray

text \<open>\<open>getExistingEvaluations(caseId)\<close>: the data of the answer; a failed request is
  logged and answered with \<open>[]\<close>.\<close>

definition getExistingEvaluations :: "evaluations_payload settled \<Rightarrow> evaluations_payload" where
  "getExistingEvaluations reply =
     (case reply of Resolved data \<Rightarrow> data | Rejected \<Rightarrow> EvaluationList [])"

section \<open>Case evaluation controller (the page and the metrics table)\<close>

text \<open>A toast: \<open>{title, description, variant?}\<close>.\<close>

record toast_message =
  toast_title :: string
  toast_description :: string
  toast_variant :: "string option"

text \<open>What the page holds and does: the store, the toasts raised so far, the update
  requests posted so far (in order), and the \<open>isSubmitting\<close> flag.\<close>

record page_state =
  store :: evaluation_store
  toasts :: "toast_message list"
  posted :: "update_request list"
  isSubmitting :: bool

subsection \<open>Submission: \<open>handleSubmit\<close>\<close>

text \<open>\<open>Promise.all\<close>: the results in order when every promise resolves, rejected as
  soon as one is.\<close>

fun promise_all :: "'a settled list \<Rightarrow> 'a list settled" where
  "promise_all [] = Resolved []"
| "promise_all (Rejected # ps) = Rejected"
| "promise_all (Resolved x # ps) =
     (case promise_all ps of Rejected \<Rightarrow> Rejected | Resolved xs \<Rightarrow> Resolved (x # xs))"

text \<open>\<open>metric.value !== null && metric.value > 0\<close>\<close>

definition scored :: "js_number option \<Rightarrow> bool" where
  "scored v = (case v of None \<Rightarrow> False | Some x \<Rightarrow> greater_than x 0)"

text \<open>The requests of \<open>submissionPromises\<close>: \<open>flatMap\<close> over the slots of the metrics
  that pass the filter.\<close>

definition submissionRequests :: "string \<Rightarrow> string \<Rightarrow> evaluation_slot list \<Rightarrow> update_request list" where
  "submissionRequests caseId evaluatorId currentEvaluations =
     concat (map (\<lambda>evaluation.
        map (\<lambda>metric.
           \<lparr>req_caseId = caseId, req_responseId = responseId evaluation,
            req_metricId = metric_id metric, req_evaluatorId = Some evaluatorId,
            req_score = the (metric_value metric)\<rparr>)
          (filter (\<lambda>metric. scored (metric_value metric)) (metrics evaluation)))
       currentEvaluations)"

text \<open>\<open>submissionPromises\<close>: \<open>updateSingleEvaluation\<close> is called on each request in
  turn; the promises, settled, and the requests sent.\<close>

fun submissionPromises :: "update_server \<Rightarrow> update_request list \<Rightarrow> update_request list \<Rightarrow> update_response settled list \<times> update_request list" where
  "submissionPromises server [] sent = ([], sent)"
| "submissionPromises server (request # requests) sent =
     (case updateSingleEvaluation server request sent of
        (promise, sent') \<Rightarrow>
          (case submissionPromises server requests sent' of
             (promises, sent'') \<Rightarrow> (promise # promises, sent'')))"

definition success_toast :: toast_message where
  "success_toast =
     \<lparr>toast_title = ''Success'', toast_description = ''All evaluations submitted successfully'',
      toast_variant = None\<rparr>"

text \<open>\<open>`${lastResult.progress.completed} of ${lastResult.progress.total} evaluations
  completed`\<close>\<close>

definition partial_toast :: "progress_counters \<Rightarrow> toast_message" where
  "partial_toast p =
     \<lparr>toast_title = ''Partial Success'',
      toast_description =
        decimal_int (progress_completed p) @ '' of '' @ decimal_int (progress_total p) @
        '' evaluations completed'',
      toast_variant = Some ''default''\<rparr>"

definition submit_error_toast :: toast_message where
  "submit_error_toast =
     \<lparr>toast_title = ''Error'', toast_description = ''Failed to submit evaluations. Please try again.'',
      toast_variant = Some ''destructive''\<rparr>"

text \<open>The \<open>catch\<close> and \<open>finally\<close> blocks of \<open>handleSubmit\<close>.\<close>

definition submit_failed :: "page_state \<Rightarrow> page_state" where
  "submit_failed st = st\<lparr>toasts := toasts st @ [submit_error_toast], isSubmitting := False\<rparr>"

text \<open>
  The part of \<open>handleSubmit\<close> after \<open>await Promise.all(submissionPromises)\<close>: a
  rejection goes to the \<open>catch\<close> block; otherwise only the last result is looked at.
  Two reads raise a \<open>TypeError\<close> and end in the \<open>catch\<close> block as well:
  \<open>lastResult.status\<close> when there is no result, and \<open>lastResult.progress.completed\<close>
  when the answer has no \<open>progress\<close>.
\<close>

definition report_results :: "string \<Rightarrow> update_response list settled \<Rightarrow> page_state \<Rightarrow> page_state" where
  "report_results caseId outcome st =
     (case outcome of
        Rejected \<Rightarrow> submit_failed st
      | Resolved results \<Rightarrow>
          if results = [] then submit_failed st
          else
            (let lastResult = last results
             in if response_status lastResult = ''completed''
                then st\<lparr>toasts := toasts st @ [success_toast],
                       store := setDoneForId caseId True (store st),
                       isSubmitting := False\<rparr>
                else
                  (case response_progress lastResult of
                     None \<Rightarrow> submit_failed st
                   | Some p \<Rightarrow> st\<lparr>toasts := toasts st @ [partial_toast p], isSubmitting := False\<rparr>)))"

text \<open>
  \<open>handleSubmit\<close>, given the id of the active record and the \<open>doctorId\<close> URL parameter
  (a missing or empty string is falsy): no active record returns at once; a missing
  evaluator id and a missing entry of the case throw; otherwise
  \<open>updateSingleEvaluation\<close> is called once per scored metric record, the requests it
  sends are the requests posted, and the results are reported. Where the case has no entry
  and its id names an inherited property, the read gives a function, whose \<open>flatMap\<close>
  raises into the same \<open>catch\<close> block as the missing entry.
\<close>

definition handleSubmit :: "update_server \<Rightarrow> string option \<Rightarrow> string option \<Rightarrow> page_state \<Rightarrow> page_state" where
  "handleSubmit server activeRecordId doctorId st =
     (case activeRecordId of
        None \<Rightarrow> st
      | Some caseId \<Rightarrow>
          if caseId = [] then st
          else
            (case doctorId of
               None \<Rightarrow> submit_failed st
             | Some evaluatorId \<Rightarrow>
                 if evaluatorId = [] then submit_failed st
                 else
                   (case evaluation (store st) caseId of
                      None \<Rightarrow> submit_failed st
                    | Some currentEvaluations \<Rightarrow>
                        (case submissionPromises server
                                (submissionRequests caseId evaluatorId currentEvaluations) [] of
                           (promises, sent) \<Rightarrow>
                             report_results caseId (promise_all promises)
                               (st\<lparr>posted := posted st @ sent\<rparr>)))))"

text \<open>The score matrix of an entry, flattened to (response id, metric id, value) triples,
  and the triples of it that carry a score: those whose value is a number greater than 0
  (not \<open>null\<close>, not 0, nothing below 0, not \<open>NaN\<close>).\<close>

definition score_triples :: "evaluation_slot list \<Rightarrow> (string \<times> string \<times> js_number option) list" where
  "score_triples slots =
     concat (map (\<lambda>model. map (\<lambda>x. (responseId model, metric_id x, metric_value x)) (metrics model)) slots)"

fun positive_score :: "js_number option \<Rightarrow> bool" where
  "positive_score (Some (Num n)) = (0 < n)"
| "positive_score (Some NaN) = False"
| "positive_score None = False"

definition scored_triples :: "evaluation_slot list \<Rightarrow> (string \<times> string \<times> js_number) list" where
  "scored_triples slots =
     map (\<lambda>(rid, mid, v). (rid, mid, the v))
       (filter (\<lambda>(rid, mid, v). positive_score v) (score_triples slots))"

definition request_triple :: "update_request \<Rightarrow> string \<times> string \<times> js_number" where
  "request_triple request = (req_responseId request, req_metricId request, req_score request)"

subsection \<open>Edits: \<open>updateEvaluation\<close>\<close>

text \<open>
  \<open>updateEvaluation(responseId, metricId, value)\<close> of the metrics table, for the active
  record and the \<open>doctorId\<close> URL parameter. The guard \<open>value !== null && (value < 1 ||
  value > 5)\<close> returns at once; both comparisons are false for \<open>NaN\<close>, which passes like
  \<open>null\<close> and the numbers from 1 to 5. Then, inside \<open>try\<close>, the store is updated first and
  the update is posted with \<open>score: value ?? 0\<close> (\<open>JSON.stringify\<close> writes a \<open>NaN\<close> score
  as \<open>null\<close>); when \<open>setEvaluation\<close> raises, the \<open>catch\<close> block logs the error and
  nothing is posted. The answer to the post only feeds the status callback.
\<close>

definition updateEvaluation :: "string \<Rightarrow> string option \<Rightarrow> string \<Rightarrow> string \<Rightarrow> js_number option \<Rightarrow> page_state \<Rightarrow> page_state" where
  "updateEvaluation activeRecordId doctorId rid mid v st =
     (if v \<noteq> None \<and> (less_than (the v) 1 \<or> greater_than (the v) 5) then st
      else
        (case setEvaluation activeRecordId
                \<lparr>payload_responseId = rid, payload_metricId = mid, payload_value = v\<rparr> (store st) of
           Inl e \<Rightarrow> st
         | Inr state' \<Rightarrow>
             st\<lparr>store := state',
                posted := posted st @
                  [\<lparr>req_caseId = activeRecordId, req_responseId = rid, req_metricId = mid,
                    req_evaluatorId = doctorId,
                    req_score = (case v of None \<Rightarrow> Num 0 | Some x \<Rightarrow> x)\<rparr>]\<rparr>))"

subsection \<open>Hydration: \<open>initializeEvaluations\<close>\<close>

text \<open>A \<open>Metric\<close> of the metric set, \<open>{id, name, description}\<close>, and a model output
  of the active record, \<open>{responseId, response}\<close>.\<close>

record metric_def =
  def_id :: string
  def_name :: string
  def_description :: string

record model_output =
  output_responseId :: string
  output_response :: string

text \<open>\<open>output?.responseId || `model-${index + 1}`\<close>: the synthetic id stands in for a
  missing output and for an empty id.\<close>

definition slot_responseId :: "model_output option \<Rightarrow> nat \<Rightarrow> string" where
  "slot_responseId output index =
     (case output of
        None \<Rightarrow> ''model-'' @ decimal_nat (index + 1)
      | Some out \<Rightarrow>
          if output_responseId out = [] then ''model-'' @ decimal_nat (index + 1)
          else output_responseId out)"

text \<open>\<open>modelEvaluations.find(evaluation => evaluation.metric === metric.id)?.score ||
  null\<close>: the score of the first evaluation of the metric; no evaluation and a score of 0
  both give \<open>null\<close>.\<close>

definition existingValue :: "remote_evaluation list \<Rightarrow> metric_def \<Rightarrow> js_number option" where
  "existingValue modelEvaluations metricDef =
     (case find (\<lambda>ev. metric ev = def_id metricDef) modelEvaluations of
        None \<Rightarrow> None
      | Some ev \<Rightarrow> if score ev = 0 then None else Some (Num (score ev)))"

text \<open>\<open>defaultScores\<close>: three slots; slot \<open>index\<close> belongs to \<open>modelOutputs[index]\<close>
  (\<open>undefined\<close> beyond the outputs), whose evaluations are those with its response id,
  and none when there is no output.\<close>

definition defaultScores :: "model_output list \<Rightarrow> metric_def list \<Rightarrow> remote_evaluation list \<Rightarrow> evaluation_slot list" where
  "defaultScores modelOutputs metricSet existingEvaluations =
     map (\<lambda>index.
        let output = (if index < length modelOutputs then Some (modelOutputs ! index) else None);
            modelEvaluations =
              (case output of
                 None \<Rightarrow> []
               | Some out \<Rightarrow>
                   filter (\<lambda>ev. model_response ev = output_responseId out)
                     existingEvaluations)
        in \<lparr>responseId = slot_responseId output index,
            metrics = map (\<lambda>metricDef.
              \<lparr>metric_id = def_id metricDef, metric_name = def_name metricDef,
               metric_description = Some (def_description metricDef),
               metric_value = existingValue modelEvaluations metricDef\<rparr>) metricSet\<rparr>)
       [0..<3]"

definition init_error_toast :: toast_message where
  "init_error_toast =
     \<lparr>toast_title = ''Error'',
      toast_description = ''Failed to initialize evaluation data. Please refresh the page.'',
      toast_variant = Some ''destructive''\<rparr>"

text \<open>
  \<open>initializeEvaluations\<close> for the active record, given the settled request for its
  evaluations. The only read of the \<open>try\<close> block that can raise is
  \<open>existingEvaluations.filter\<close> on data that is not an array, reached as soon as the
  record has an output; the \<open>catch\<close> block raises the toast and the store is not written.
\<close>

definition initializeEvaluations :: "string \<Rightarrow> model_output list \<Rightarrow> metric_def list \<Rightarrow> evaluations_payload settled \<Rightarrow> page_state \<Rightarrow> page_state" where
  "initializeEvaluations recordId modelOutputs metricSet reply st =
     (case getExistingEvaluations reply of
        EvaluationList existingEvaluations \<Rightarrow>
          st\<lparr>store := initAtId recordId (defaultScores modelOutputs metricSet existingEvaluations) (store st),
             isSubmitting := False\<rparr>
      | NotAnArray \<Rightarrow>
          if modelOutputs = []
          then st\<lparr>store := initAtId recordId (defaultScores modelOutputs metricSet []) (store st),
                 isSubmitting := False\<rparr>
          else st\<lparr>toasts := toasts st @ [init_error_toast], isSubmitting := False\<rparr>)"

text \<open>
  The effect that runs it: nothing happens without an active record id, with an empty
  metric set, or while the metric set is the placeholder (first id \<open>'0'\<close>). The outputs
  of a record are always an array.
\<close>

definition hydration_effect :: "string option \<Rightarrow> model_output list \<Rightarrow> metric_def list \<Rightarrow> evaluations_payload settled \<Rightarrow> page_state \<Rightarrow> page_state" where
  "hydration_effect activeRecordId modelOutputs metricSet reply st =
     (case activeRecordId of
        None \<Rightarrow> st
      | Some recordId \<Rightarrow>
          if recordId = [] \<or> metricSet = [] \<or> def_id (hd metricSet) = ''0'' then st
          else initializeEvaluations recordId modelOutputs metricSet reply st)"

text \<open>The value the specification gives a slot for a metric: the score of the remote
  evaluation that matches the response id of the slot and the metric id, \<open>null\<close> when
  there is none.\<close>

definition matching_score :: "remote_evaluation list \<Rightarrow> string \<Rightarrow> string \<Rightarrow> int option" where
  "matching_score existingEvaluations rid mid =
     map_option score
       (find (\<lambda>ev. model_response ev = rid \<and> metric ev = mid)
          existingEvaluations)"

section \<open>Ground truth of a record (\<open>getRecords\<close>, services/index.ts)\<close>

text \<open>
  A value of the payload, as \<open>response.data\<close> holds it. An object keeps its fields in
  the order of the text; a missing field, and \<open>undefined\<close> in general, is \<open>None\<close> of
  \<open>json option\<close>.
\<close>

datatype json =
  JNull
| JBool bool
| JNumber int
| JString string
| JArray "json list"
| JObject "(string \<times> json) list"

text \<open>Reading a property: of an object its field (the last one of that name), of an
  array, a string, a number or a boolean \<open>undefined\<close> for the names read here. Reading a
  property of \<open>null\<close> raises and is handled where it can happen.\<close>

definition get_field :: "json \<Rightarrow> string \<Rightarrow> json option" where
  "get_field v k = (case v of JObject kvs \<Rightarrow> map_of (rev kvs) k | _ \<Rightarrow> None)"

text \<open>Truthiness, and \<open>a || b\<close>.\<close>

fun truthy :: "json option \<Rightarrow> bool" where
  "truthy None = False"
| "truthy (Some JNull) = False"
| "truthy (Some (JBool b)) = b"
| "truthy (Some (JNumber n)) = (n \<noteq> 0)"
| "truthy (Some (JString s)) = (s \<noteq> [])"
| "truthy (Some (JArray vs)) = True"
| "truthy (Some (JObject kvs)) = True"

definition js_or :: "json option \<Rightarrow> json option \<Rightarrow> json option" where
  "js_or a b = (if truthy a then a else b)"

text \<open>The normalized ground truth \<open>{findings, impressions}\<close>.\<close>

record ground_truth =
  findings :: json
  impressions :: json

text \<open>\<open>{findings: v.findings || '', impressions: v.impressions || v.impression || ''}\<close>\<close>

definition extract_report :: "json \<Rightarrow> ground_truth" where
  "extract_report v =
     \<lparr>findings = the (js_or (get_field v ''findings'') (Some (JString []))),
      impressions =
        the (js_or (js_or (get_field v ''impressions'') (get_field v ''impression''))
          (Some (JString [])))\<rparr>"

definition plain_report :: "string \<Rightarrow> ground_truth" where
  "plain_report s = \<lparr>findings = JString s, impressions = JString []\<rparr>"

definition empty_report :: ground_truth where
  "empty_report = \<lparr>findings = JString [], impressions = JString []\<rparr>"

text \<open>\<open>trim\<close> and \<open>startsWith\<close> on strings; the white space is the ASCII part of what
  \<open>trim\<close> removes (tab, line feed, vertical tab, form feed, carriage return, space).\<close>

definition is_space :: "char \<Rightarrow> bool" where
  "is_space c \<longleftrightarrow> c \<in> {CHR 0x09, CHR 0x0A, CHR 0x0B, CHR 0x0C, CHR 0x0D, CHR 0x20}"

definition trim :: "string \<Rightarrow> string" where
  "trim s = rev (dropWhile is_space (rev (dropWhile is_space s)))"

definition startsWith :: "string \<Rightarrow> string \<Rightarrow> bool" where
  "startsWith s p \<longleftrightarrow> take (length p) s = p"

text \<open>
  The \<open>groundTruth\<close> of a record, given \<open>JSON.parse\<close> as a function that returns \<open>None\<close>
  where it raises a \<open>SyntaxError\<close>. In the order of the source: an object (\<open>typeof\<close> is
  \<open>'object'\<close> and the value is not \<open>null\<close>; an array is one) is read directly; a string
  whose trimmed text starts with \<open>{\<close> is parsed and the parsed value is read; any other
  string is the findings; anything else gives empty strings. The \<open>catch\<close> block, reached
  when the parse raises or when the parsed value is \<open>null\<close> and reading it raises,
  returns the string as the findings.
\<close>

definition groundTruth :: "(string \<Rightarrow> json option) \<Rightarrow> json option \<Rightarrow> ground_truth" where
  "groundTruth JSON_parse gt =
     (case gt of
        Some (JObject kvs) \<Rightarrow> extract_report (JObject kvs)
      | Some (JArray vs) \<Rightarrow> extract_report (JArray vs)
      | Some (JString s) \<Rightarrow>
          if startsWith (trim s) ''{''
          then (case JSON_parse s of
                  None \<Rightarrow> plain_report s
                | Some JNull \<Rightarrow> plain_report s
                | Some parsed \<Rightarrow> extract_report parsed)
          else plain_report s
      | _ \<Rightarrow> empty_report)"

text \<open>
  The decision table in the words of the specification: an object is used directly; a
  string parseable as JSON is parsed; a string otherwise is the findings; anything else
  is empty.
\<close>

definition groundTruth_table :: "(string \<Rightarrow> json option) \<Rightarrow> json option \<Rightarrow> ground_truth" where
  "groundTruth_table JSON_parse gt =
     (case gt of
        Some (JObject kvs) \<Rightarrow> extract_report (JObject kvs)
      | Some (JArray vs) \<Rightarrow> extract_report (JArray vs)
      | Some (JString s) \<Rightarrow>
          (case JSON_parse s of None \<Rightarrow> plain_report s | Some parsed \<Rightarrow> extract_report parsed)
      | _ \<Rightarrow> empty_report)"

section \<open>The entry of a case as objects on a heap (\<open>initAtId\<close> and sharing)\<close>

text \<open>
  What \<open>initAtId\<close> copies and what it shares can only be said on objects with
  identity. The heap is the list of the objects allocated so far, an address is an
  index into it, and a new object is appended. An entry is an array of references to
  response objects \<open>{responseId, metrics}\<close>; \<open>metrics\<close> refers to an array of references
  to metric objects, whose fields are strings and numbers.
\<close>

type_synonym addr = nat

datatype heap_object =
  MetricObject metric_record
| ResponseObject string addr
| ArrayObject "addr list"

type_synonym heap = "heap_object list"

definition deref :: "heap \<Rightarrow> addr \<Rightarrow> heap_object option" where
  "deref h a = (if a < length h then Some (h ! a) else None)"

definition alloc :: "heap \<Rightarrow> heap_object \<Rightarrow> heap \<times> addr" where
  "alloc h obj = (h @ [obj], length h)"

text \<open>The value an address stands for: \<open>None\<close> when the objects found there do not have
  the shape of the type.\<close>

fun read_metrics :: "heap \<Rightarrow> addr list \<Rightarrow> metric_record list option" where
  "read_metrics h [] = Some []"
| "read_metrics h (a # as) =
     (case deref h a of
        Some (MetricObject m) \<Rightarrow> map_option ((#) m) (read_metrics h as)
      | _ \<Rightarrow> None)"

definition read_response :: "heap \<Rightarrow> addr \<Rightarrow> evaluation_slot option" where
  "read_response h a =
     (case deref h a of
        Some (ResponseObject rid ma) \<Rightarrow>
          (case deref h ma of
             Some (ArrayObject as) \<Rightarrow>
               map_option (\<lambda>ms. \<lparr>responseId = rid, metrics = ms\<rparr>) (read_metrics h as)
           | _ \<Rightarrow> None)
      | _ \<Rightarrow> None)"

fun read_responses :: "heap \<Rightarrow> addr list \<Rightarrow> evaluation_slot list option" where
  "read_responses h [] = Some []"
| "read_responses h (a # as) =
     (case read_response h a of
        None \<Rightarrow> None
      | Some model \<Rightarrow> map_option ((#) model) (read_responses h as))"

definition read_entry :: "heap \<Rightarrow> addr \<Rightarrow> evaluation_slot list option" where
  "read_entry h a =
     (case deref h a of Some (ArrayObject as) \<Rightarrow> read_responses h as | _ \<Rightarrow> None)"

text \<open>\<open>model.metrics.map(metric => ({ ...metric }))\<close>: a new object per metric.\<close>

fun copy_metrics :: "heap \<Rightarrow> addr list \<Rightarrow> (heap \<times> addr list) option" where
  "copy_metrics h [] = Some (h, [])"
| "copy_metrics h (a # as) =
     (case deref h a of
        Some (MetricObject m) \<Rightarrow>
          (case alloc h (MetricObject m) of
             (h1, b) \<Rightarrow> map_option (\<lambda>(h2, bs). (h2, b # bs)) (copy_metrics h1 as))
      | _ \<Rightarrow> None)"

text \<open>\<open>model => ({ ...model, metrics: model.metrics.map(...) })\<close>: a new metrics array
  and a new response object.\<close>

definition copy_response :: "heap \<Rightarrow> addr \<Rightarrow> (heap \<times> addr) option" where
  "copy_response h a =
     (case deref h a of
        Some (ResponseObject rid ma) \<Rightarrow>
          (case deref h ma of
             Some (ArrayObject as) \<Rightarrow>
               (case copy_metrics h as of
                  None \<Rightarrow> None
                | Some (h1, bs) \<Rightarrow>
                    (case alloc h1 (ArrayObject bs) of
                       (h2, mb) \<Rightarrow> Some (alloc h2 (ResponseObject rid mb))))
           | _ \<Rightarrow> None)
      | _ \<Rightarrow> None)"

text \<open>\<open>payload.map(...)\<close> over the responses.\<close>

fun copy_responses :: "heap \<Rightarrow> addr list \<Rightarrow> (heap \<times> addr list) option" where
  "copy_responses h [] = Some (h, [])"
| "copy_responses h (a # as) =
     (case copy_response h a of
        None \<Rightarrow> None
      | Some (h1, b) \<Rightarrow> map_option (\<lambda>(h2, bs). (h2, b # bs)) (copy_responses h1 as))"

text \<open>The store with its entries as references, and \<open>initAtId\<close> on it: the entry of
  the case becomes the new array of the copies.\<close>

record heap_store =
  objects :: heap
  entries :: "string \<rightharpoonup> addr"
  done_flags :: "string \<rightharpoonup> bool"

definition initAtId_heap :: "string \<Rightarrow> addr \<Rightarrow> heap_store \<Rightarrow> heap_store option" where
  "initAtId_heap idx payload st =
     (case deref (objects st) payload of
        Some (ArrayObject as) \<Rightarrow>
          (case copy_responses (objects st) as of
             None \<Rightarrow> None
           | Some (h1, bs) \<Rightarrow>
               (case alloc h1 (ArrayObject bs) of
                  (h2, b) \<Rightarrow> Some (st\<lparr>objects := h2, entries := (entries st)(idx \<mapsto> b)\<rparr>)))
      | _ \<Rightarrow> None)"

text \<open>What a caller can do to objects it holds: write any object at their addresses,
  any number of times, in order.\<close>

definition overwrite :: "(addr \<times> heap_object) list \<Rightarrow> heap \<Rightarrow> heap" where
  "overwrite writes h = fold (\<lambda>(a, obj) h. h[a := obj]) writes h"

section \<open>Sample data for the examples\<close>

text \<open>Sample stores for the examples: an empty store, and a store whose case
  \<open>c1\<close> holds one slot with two scored metrics.\<close>

definition empty_store :: evaluation_store where
  "empty_store = \<lparr>evaluation = Map.empty, doneForId = Map.empty\<rparr>"

definition sample_store :: evaluation_store where
  "sample_store =
     \<lparr>evaluation = [''c1'' \<mapsto>
        [\<lparr>responseId = ''model-1'', metrics =
           [\<lparr>metric_id = ''m1'', metric_name = ''Accuracy'', metric_description = Some [], metric_value = Some (Num 2)\<rparr>,
            \<lparr>metric_id = ''m2'', metric_name = ''Relevance'', metric_description = Some [], metric_value = Some (Num 4)\<rparr>]\<rparr>]],
      doneForId = Map.empty\<rparr>"

text \<open>Sample pages and backends for the examples. \<open>counting_server n\<close> answers the
  \<open>i\<close>-th call with the counters \<open>i + 1\<close> of \<open>n\<close> and the status \<open>completed\<close> once
  they are equal; \<open>error_status_server\<close> answers \<open>{status: 'error'}\<close> with no
  \<open>progress\<close>; \<open>offline_server\<close> rejects every request.\<close>

definition sample_page :: page_state where
  "sample_page = \<lparr>store = sample_store, toasts = [], posted = [], isSubmitting = False\<rparr>"

definition counting_server :: "nat \<Rightarrow> update_server" where
  "counting_server n i request =
     Resolved \<lparr>response_status = (if Suc i = n then ''completed'' else ''in_progress''),
       response_progress = Some \<lparr>progress_completed = int (Suc i), progress_total = int n\<rparr>\<rparr>"

definition error_status_server :: update_server where
  "error_status_server i request =
     Resolved \<lparr>response_status = ''error'', response_progress = None\<rparr>"

definition offline_server :: update_server where
  "offline_server i request = Rejected"

definition example_matrix_page :: page_state where
  "example_matrix_page =
     \<lparr>store = \<lparr>evaluation = [''c1'' \<mapsto>
        [\<lparr>responseId = ''model-1'', metrics =
           [\<lparr>metric_id = ''m1'', metric_name = ''Accuracy'', metric_description = Some [], metric_value = Some (Num 4)\<rparr>,
            \<lparr>metric_id = ''m2'', metric_name = ''Relevance'', metric_description = Some [], metric_value = None\<rparr>]\<rparr>,
         \<lparr>responseId = ''model-2'', metrics =
           [\<lparr>metric_id = ''m1'', metric_name = ''Accuracy'', metric_description = Some [], metric_value = Some (Num 0)\<rparr>]\<rparr>]],
        doneForId = Map.empty\<rparr>,
      toasts = [], posted = [], isSubmitting = False\<rparr>"

definition unscored_page :: page_state where
  "unscored_page =
     \<lparr>store = \<lparr>evaluation = [''c1'' \<mapsto>
        [\<lparr>responseId = ''model-1'', metrics =
           [\<lparr>metric_id = ''m1'', metric_name = ''Accuracy'', metric_description = Some [], metric_value = None\<rparr>,
            \<lparr>metric_id = ''m2'', metric_name = ''Relevance'', metric_description = Some [], metric_value = Some (Num 0)\<rparr>]\<rparr>,
         \<lparr>responseId = ''model-2'', metrics = []\<rparr>]],
        doneForId = Map.empty\<rparr>,
      toasts = [], posted = [], isSubmitting = False\<rparr>"

text \<open>The hydration example of the specification: two metrics, three outputs
  \<open>model-1\<close> to \<open>model-3\<close>, one remote evaluation of \<open>model-1\<close> on \<open>m1\<close> with score 4; the
  same evaluation after the score was cleared (an edit with \<open>null\<close> posts score 0); and a
  page with an empty store.\<close>

definition example_metrics :: "metric_def list" where
  "example_metrics =
     [\<lparr>def_id = ''m1'', def_name = ''Accuracy'', def_description = []\<rparr>,
      \<lparr>def_id = ''m2'', def_name = ''Relevance'', def_description = []\<rparr>]"

definition example_outputs :: "model_output list" where
  "example_outputs =
     [\<lparr>output_responseId = ''model-1'', output_response = ''Clear lungs.''\<rparr>,
      \<lparr>output_responseId = ''model-2'', output_response = ''No effusion.''\<rparr>,
      \<lparr>output_responseId = ''model-3'', output_response = ''Normal heart size.''\<rparr>]"

definition example_remote :: "remote_evaluation list" where
  "example_remote = [\<lparr>model_response = ''model-1'', metric = ''m1'', score = 4\<rparr>]"

definition cleared_remote :: "remote_evaluation list" where
  "cleared_remote = [\<lparr>model_response = ''model-1'', metric = ''m1'', score = 0\<rparr>]"

definition blank_page :: page_state where
  "blank_page = \<lparr>store = empty_store, toasts = [], posted = [], isSubmitting = False\<rparr>"

text \<open>\<open>JSON.parse\<close> on the texts of the examples: the text of an empty array and the
  text of a report object parse; the other texts used below do not.\<close>

definition sample_parse :: "string \<Rightarrow> json option" where
  "sample_parse s =
     (if s = ''[]'' then Some (JArray [])
      else if s = '' {\"findings\": \"Clear lungs.\", \"impression\": \"Normal.\"}''
      then Some (JObject [(''findings'', JString ''Clear lungs.''), (''impression'', JString ''Normal.'')])
      else None)"

text \<open>A heap that holds one response with two metric records as the payload at address
  4, and writes into every object of that payload.\<close>

definition sample_entry :: "evaluation_slot list" where
  "sample_entry =
     [\<lparr>responseId = ''model-1'', metrics =
        [\<lparr>metric_id = ''m1'', metric_name = ''Accuracy'', metric_description = Some [], metric_value = Some (Num 4)\<rparr>,
         \<lparr>metric_id = ''m2'', metric_name = ''Relevance'', metric_description = Some [], metric_value = None\<rparr>]\<rparr>]"

definition sample_heap_store :: heap_store where
  "sample_heap_store =
     \<lparr>objects =
        [MetricObject \<lparr>metric_id = ''m1'', metric_name = ''Accuracy'', metric_description = Some [], metric_value = Some (Num 4)\<rparr>,
         MetricObject \<lparr>metric_id = ''m2'', metric_name = ''Relevance'', metric_description = Some [], metric_value = None\<rparr>,
         ArrayObject [0, 1],
         ResponseObject ''model-1'' 2,
         ArrayObject [3]],
      entries = Map.empty, done_flags = Map.empty\<rparr>"

definition sample_writes :: "(addr \<times> heap_object) list" where
  "sample_writes =
     [(0, MetricObject \<lparr>metric_id = ''m1'', metric_name = ''Accuracy'', metric_description = Some [], metric_value = Some (Num 1)\<rparr>),
      (2, ArrayObject [1]),
      (3, ResponseObject ''model-9'' 2),
      (4, ArrayObject [])]"

section \<open>Properties of the store\<close>

subsection \<open>The edit as a recursion over the entry\<close>

lemma edit_metrics_Nil: "edit_metrics p [] = [pushed_metric p]"
  by (simp add: edit_metrics_def)

lemma edit_metrics_Cons:
  "edit_metrics p (m # ms) =
     (if metric_id m = payload_metricId p then m\<lparr>metric_value := payload_value p\<rparr> # ms
      else m # edit_metrics p ms)"
  by (simp add: edit_metrics_def split: option.splits)

lemma edit_slots_Nil:
  "edit_slots p [] = [\<lparr>responseId = payload_responseId p, metrics = [pushed_metric p]\<rparr>]"
  by (simp add: edit_slots_def)

lemma edit_slots_Cons:
  "edit_slots p (s # ss) =
     (if responseId s = payload_responseId p then s\<lparr>metrics := edit_metrics p (metrics s)\<rparr> # ss
      else s # edit_slots p ss)"
  by (simp add: edit_slots_def split: option.splits)

lemma find_edit_metrics:
  "find (\<lambda>x. metric_id x = payload_metricId p) (edit_metrics p ms) \<noteq> None \<and>
   map_option metric_value (find (\<lambda>x. metric_id x = payload_metricId p) (edit_metrics p ms)) = Some (payload_value p)"
  by (induction ms) (simp_all add: edit_metrics_Nil edit_metrics_Cons pushed_metric_def)

lemma read_score_edit_slots:
  "read_score (edit_slots p slots) (payload_responseId p) (payload_metricId p) = Some (payload_value p)"
  by (induction slots) (simp_all add: edit_slots_Nil edit_slots_Cons read_score_def find_edit_metrics pushed_metric_def)

lemma edit_metrics_idem: "edit_metrics p (edit_metrics p ms) = edit_metrics p ms"
  by (induction ms) (simp_all add: edit_metrics_Nil edit_metrics_Cons pushed_metric_def)

lemma edit_slots_idem: "edit_slots p (edit_slots p slots) = edit_slots p slots"
  by (induction slots) (simp_all add: edit_slots_Nil edit_slots_Cons edit_metrics_Nil edit_metrics_Cons edit_metrics_idem pushed_metric_def)

lemma edited_store_idem: "edited_store idx p (edited_store idx p s) = edited_store idx p s"
  by (simp add: edited_store_def edit_slots_idem)

lemma filter_edit_metrics_other:
  "mid \<noteq> payload_metricId p \<Longrightarrow>
   filter (\<lambda>x. metric_id x = mid) (edit_metrics p ms) = filter (\<lambda>x. metric_id x = mid) ms"
  by (induction ms) (simp_all add: edit_metrics_Nil edit_metrics_Cons pushed_metric_def)

lemma pair_records_other:
  "(rid, mid) \<noteq> (payload_responseId p, payload_metricId p) \<Longrightarrow>
   pair_records rid mid (edit_slots p slots) = pair_records rid mid slots"
  by (induction slots) (auto simp add: edit_slots_Nil edit_slots_Cons pair_records_def pushed_metric_def filter_edit_metrics_other)

lemma synthetic_slots_eq:
  "synthetic_slots = [\<lparr>responseId = ''model-1'', metrics = []\<rparr>, \<lparr>responseId = ''model-2'', metrics = []\<rparr>, \<lparr>responseId = ''model-3'', metrics = []\<rparr>]"
  by (simp add: synthetic_slots_def upt_rec digit_char_def)

lemma map_metric_id_edit_metrics:
  "map metric_id (edit_metrics p ms) =
     (if payload_metricId p \<in> set (map metric_id ms) then map metric_id ms
      else map metric_id ms @ [payload_metricId p])"
  by (induction ms) (auto simp add: edit_metrics_Nil edit_metrics_Cons pushed_metric_def)

lemma map_responseId_edit_slots:
  "map responseId (edit_slots p slots) =
     (if payload_responseId p \<in> set (map responseId slots) then map responseId slots
      else map responseId slots @ [payload_responseId p])"
  by (induction slots) (auto simp add: edit_slots_Nil edit_slots_Cons)

lemma distinct_edit_metrics:
  "distinct (map metric_id ms) \<Longrightarrow> distinct (map metric_id (edit_metrics p ms))"
  by (simp add: map_metric_id_edit_metrics)

lemma list_all_edit_slots:
  "list_all (\<lambda>model. distinct (map metric_id (metrics model))) slots \<Longrightarrow>
   list_all (\<lambda>model. distinct (map metric_id (metrics model))) (edit_slots p slots)"
  by (induction slots) (simp_all add: edit_slots_Nil edit_slots_Cons pushed_metric_def distinct_edit_metrics)

lemma wf_entry_edit_slots: "wf_entry slots \<Longrightarrow> wf_entry (edit_slots p slots)"
  unfolding wf_entry_def using list_all_edit_slots [of slots p]
  by (simp add: map_responseId_edit_slots)

lemma wf_entry_synthetic: "wf_entry synthetic_slots"
  by (simp add: wf_entry_def synthetic_slots_eq)

lemma filter_fresh_key: "a \<notin> f ` set xs \<Longrightarrow> filter (\<lambda>x. f x = a) xs = []"
  by (induction xs) auto

lemma distinct_filter_le1:
  "distinct (map f xs) \<Longrightarrow> length (filter (\<lambda>x. f x = a) xs) \<le> 1"
proof (induction xs)
  case Nil
  show ?case by simp
next
  case (Cons x xs)
  show ?case
  proof (cases "f x = a")
    case True
    with Cons.prems have "a \<notin> f ` set xs" by auto
    then have "filter (\<lambda>x. f x = a) xs = []" by (rule filter_fresh_key)
    with True show ?thesis by simp
  next
    case False
    with Cons show ?thesis by simp
  qed
qed

lemma pair_records_Cons:
  "pair_records rid mid (s # slots) =
     (if responseId s = rid then filter (\<lambda>x. metric_id x = mid) (metrics s) else []) @
     pair_records rid mid slots"
  by (simp add: pair_records_def)

lemma pair_records_fresh:
  "rid \<notin> responseId ` set slots \<Longrightarrow> pair_records rid mid slots = []"
  by (simp add: pair_records_def filter_fresh_key)

lemma pair_records_le1:
  "wf_entry slots \<Longrightarrow> length (pair_records rid mid slots) \<le> 1"
proof (induction slots)
  case Nil
  show ?case by (simp add: pair_records_def)
next
  case (Cons s slots)
  from Cons.prems have wf: "wf_entry slots" and fresh: "responseId s \<notin> responseId ` set slots"
    and ds: "distinct (map metric_id (metrics s))"
    by (simp_all add: wf_entry_def)
  show ?case
  proof (cases "responseId s = rid")
    case True
    with fresh have "pair_records rid mid slots = []" by (simp add: pair_records_fresh)
    with True distinct_filter_le1 [OF ds, of mid] show ?thesis
      by (simp add: pair_records_Cons)
  next
    case False
    with Cons.IH wf show ?thesis by (simp add: pair_records_Cons)
  qed
qed

lemma filter_edit_metrics_nonempty:
  "filter (\<lambda>x. metric_id x = payload_metricId p) (edit_metrics p ms) \<noteq> []"
  by (induction ms) (simp_all add: edit_metrics_Nil edit_metrics_Cons pushed_metric_def)

lemma pair_records_edit_nonempty:
  "pair_records (payload_responseId p) (payload_metricId p) (edit_slots p slots) \<noteq> []"
  by (induction slots)
    (simp_all add: edit_slots_Nil edit_slots_Cons pair_records_Cons pushed_metric_def
      filter_edit_metrics_nonempty)

lemma entry_of_edited_store:
  "entry_of (edited_store idx p state) idx =
     edit_slots p (case evaluation state idx of None \<Rightarrow> synthetic_slots | Some e \<Rightarrow> e)"
  by (simp add: entry_of_def edited_store_def)

lemma entry_of_edited_store_other:
  "idx' \<noteq> idx \<Longrightarrow> entry_of (edited_store idx p state) idx' = entry_of state idx'"
  by (simp add: entry_of_def edited_store_def)

lemma wf_entry_edited_store:
  "wf_entry (entry_of state idx) \<Longrightarrow> wf_entry (entry_of (edited_store idx p state) idx)"
proof -
  assume wf: "wf_entry (entry_of state idx)"
  have "wf_entry (case evaluation state idx of None \<Rightarrow> synthetic_slots | Some e \<Rightarrow> e)"
    using wf by (cases "evaluation state idx") (simp_all add: wf_entry_synthetic entry_of_def)
  then show ?thesis by (simp add: entry_of_edited_store wf_entry_edit_slots)
qed

lemma stored_score_edited_store:
  "stored_score (edited_store idx p state) idx (payload_responseId p) (payload_metricId p) =
     Some (payload_value p)"
  by (simp add: stored_score_def edited_store_def read_score_edit_slots)

lemma pair_records_synthetic: "pair_records rid mid synthetic_slots = []"
  by (simp add: synthetic_slots_eq pair_records_def)

lemma pair_records_edited_store_other:
  "(idx', rid, mid) \<noteq> (idx, payload_responseId p, payload_metricId p) \<Longrightarrow>
   pair_records rid mid (entry_of (edited_store idx p state) idx') =
   pair_records rid mid (entry_of state idx')"
proof (cases "idx' = idx")
  case False
  then show ?thesis by (simp add: entry_of_edited_store_other)
next
  case True
  assume "(idx', rid, mid) \<noteq> (idx, payload_responseId p, payload_metricId p)"
  with True have ne: "(rid, mid) \<noteq> (payload_responseId p, payload_metricId p)" by simp
  show ?thesis
  proof (cases "evaluation state idx")
    case None
    with True ne show ?thesis
      by (simp add: entry_of_edited_store pair_records_other pair_records_synthetic)
        (simp add: entry_of_def pair_records_def)
  next
    case (Some e)
    with True ne show ?thesis
      by (simp add: entry_of_edited_store pair_records_other) (simp add: entry_of_def)
  qed
qed

lemma edited_stores_Cons:
  "edited_stores idx rid mid (v # vs) state =
     edited_stores idx rid mid vs (edited_store idx
       \<lparr>payload_responseId = rid, payload_metricId = mid, payload_value = v\<rparr> state)"
  by (simp add: edited_stores_def)

lemma edited_stores_last:
  "vs \<noteq> [] \<Longrightarrow> stored_score (edited_stores idx rid mid vs state) idx rid mid = Some (last vs)"
proof (induction vs arbitrary: state)
  case Nil
  then show ?case by simp
next
  case (Cons v vs)
  show ?case
  proof (cases "vs = []")
    case True
    then show ?thesis
      using stored_score_edited_store
        [of idx "\<lparr>payload_responseId = rid, payload_metricId = mid, payload_value = v\<rparr>" state]
      by (simp add: edited_stores_def)
  next
    case False
    with Cons.IH show ?thesis by (simp add: edited_stores_Cons)
  qed
qed

lemma edited_stores_wf:
  "wf_entry (entry_of state idx) \<Longrightarrow> wf_entry (entry_of (edited_stores idx rid mid vs state) idx)"
  by (induction vs arbitrary: state) (simp_all add: edited_stores_Cons wf_entry_edited_store, simp add: edited_stores_def)

lemma edited_stores_other:
  "(idx', rid', mid') \<noteq> (idx, rid, mid) \<Longrightarrow>
   pair_records rid' mid' (entry_of (edited_stores idx rid mid vs state) idx') =
   pair_records rid' mid' (entry_of state idx')"
proof (induction vs arbitrary: state)
  case Nil
  show ?case by (simp add: edited_stores_def)
next
  case (Cons v vs)
  from Cons.prems have "pair_records rid' mid' (entry_of (edited_store idx
       \<lparr>payload_responseId = rid, payload_metricId = mid, payload_value = v\<rparr> state) idx') =
     pair_records rid' mid' (entry_of state idx')"
    by (intro pair_records_edited_store_other) simp
  with Cons show ?case by (simp add: edited_stores_Cons)
qed

lemma edited_stores_pair_nonempty:
  "vs \<noteq> [] \<Longrightarrow> pair_records rid mid (entry_of (edited_stores idx rid mid vs state) idx) \<noteq> []"
proof (induction vs arbitrary: state)
  case Nil
  then show ?case by simp
next
  case (Cons v vs)
  show ?case
  proof (cases "vs = []")
    case True
    then show ?thesis
      using pair_records_edit_nonempty
        [of "\<lparr>payload_responseId = rid, payload_metricId = mid, payload_value = v\<rparr>"]
      by (simp add: edited_stores_def entry_of_edited_store)
  next
    case False
    with Cons.IH show ?thesis by (simp add: edited_stores_Cons)
  qed
qed

subsection \<open>Runs of edits on one triple\<close>

lemma setEvaluation_returns:
  "evaluation state idx \<noteq> None \<or> \<not> inherited_property idx \<Longrightarrow>
   setEvaluation idx p state = Inr (edited_store idx p state)"
  by (auto simp add: setEvaluation_def)

lemma setEvaluation_raises:
  "evaluation state idx = None \<Longrightarrow> inherited_property idx \<Longrightarrow> setEvaluation idx p state = Inl TypeError"
  by (simp add: setEvaluation_def)

lemma evaluation_edited_store: "evaluation (edited_store idx p state) idx \<noteq> None"
  by (simp add: edited_store_def)

lemma set_scores_returns:
  "evaluation state idx \<noteq> None \<or> \<not> inherited_property idx \<Longrightarrow>
   set_scores idx rid mid vs state = Inr (edited_stores idx rid mid vs state)"
proof (induction vs arbitrary: state)
  case Nil
  show ?case by (simp add: edited_stores_def)
next
  case (Cons v vs)
  let ?p = "\<lparr>payload_responseId = rid, payload_metricId = mid, payload_value = v\<rparr>"
  have "set_scores idx rid mid vs (edited_store idx ?p state) =
        Inr (edited_stores idx rid mid vs (edited_store idx ?p state))"
    by (rule Cons.IH) (simp add: evaluation_edited_store)
  with Cons.prems show ?case
    by (simp add: setEvaluation_returns edited_stores_Cons)
qed

lemma set_scores_raises:
  "evaluation state idx = None \<Longrightarrow> inherited_property idx \<Longrightarrow> vs \<noteq> [] \<Longrightarrow>
   set_scores idx rid mid vs state = Inl TypeError"
  by (cases vs) (simp_all add: setEvaluation_raises)

lemma edited_stores_snoc:
  "edited_stores idx rid mid (vs @ [v]) state =
     edited_store idx \<lparr>payload_responseId = rid, payload_metricId = mid, payload_value = v\<rparr>
       (edited_stores idx rid mid vs state)"
  by (simp add: edited_stores_def)

lemma edited_stores_repeat_last:
  "vs \<noteq> [] \<Longrightarrow> edited_stores idx rid mid (vs @ [last vs]) state = edited_stores idx rid mid vs state"
proof -
  assume "vs \<noteq> []"
  then obtain us where vs: "vs = us @ [last vs]"
    by (metis append_butlast_last_id)
  have "edited_stores idx rid mid ((us @ [last vs]) @ [last vs]) state =
        edited_stores idx rid mid (us @ [last vs]) state"
    by (simp only: edited_stores_snoc edited_store_idem)
  with vs show ?thesis by simp
qed

lemma length_filter_edit_metrics_find:
  "length (filter (\<lambda>x. metric_id x = payload_metricId p) (edit_metrics p ms)) =
   length (filter (\<lambda>x. metric_id x = payload_metricId p) ms) +
   (if find (\<lambda>x. metric_id x = payload_metricId p) ms = None then 1 else 0)"
  by (induction ms) (simp_all add: edit_metrics_Nil edit_metrics_Cons pushed_metric_def)

lemma read_score_Cons:
  "read_score (s # slots) rid mid =
     (if responseId s = rid then map_option metric_value (find (\<lambda>x. metric_id x = mid) (metrics s))
      else read_score slots rid mid)"
  by (simp add: read_score_def)

lemma length_pair_records_edit:
  "length (pair_records (payload_responseId p) (payload_metricId p) (edit_slots p slots)) =
   length (pair_records (payload_responseId p) (payload_metricId p) slots) +
   (if read_score slots (payload_responseId p) (payload_metricId p) = None then 1 else 0)"
proof (induction slots)
  case Nil
  show ?case
    by (simp add: edit_slots_Nil pair_records_Cons pushed_metric_def read_score_def)
next
  case (Cons s slots)
  show ?case
  proof (cases "responseId s = payload_responseId p")
    case True
    then show ?thesis
      by (simp add: edit_slots_Cons pair_records_Cons read_score_Cons
          length_filter_edit_metrics_find)
  next
    case False
    with Cons.IH show ?thesis
      by (simp add: edit_slots_Cons pair_records_Cons read_score_Cons)
  qed
qed

lemma read_score_synthetic: "read_score synthetic_slots rid mid = None"
  by (simp add: synthetic_slots_eq read_score_def)

lemma length_pair_records_edited_store:
  "length (pair_records (payload_responseId p) (payload_metricId p)
     (entry_of (edited_store idx p state) idx)) =
   length (pair_records (payload_responseId p) (payload_metricId p) (entry_of state idx)) +
   (if stored_score state idx (payload_responseId p) (payload_metricId p) = None then 1 else 0)"
proof (cases "evaluation state idx")
  case None
  have "length (pair_records (payload_responseId p) (payload_metricId p) (edit_slots p synthetic_slots)) = 1"
    by (simp add: length_pair_records_edit pair_records_synthetic read_score_synthetic)
  moreover have "entry_of state idx = []" "stored_score state idx (payload_responseId p) (payload_metricId p) = None"
    using None by (simp_all add: entry_of_def stored_score_def)
  moreover have "pair_records (payload_responseId p) (payload_metricId p) [] = []"
    by (simp add: pair_records_def)
  ultimately show ?thesis
    using None by (simp add: entry_of_edited_store)
next
  case (Some slots)
  then have "entry_of state idx = slots"
    "stored_score state idx (payload_responseId p) (payload_metricId p) =
       read_score slots (payload_responseId p) (payload_metricId p)"
    by (simp_all add: entry_of_def stored_score_def)
  with Some show ?thesis
    by (simp add: entry_of_edited_store length_pair_records_edit)
qed

lemma edited_stores_count:
  "vs \<noteq> [] \<Longrightarrow>
   length (pair_records rid mid (entry_of (edited_stores idx rid mid vs state) idx)) =
   length (pair_records rid mid (entry_of state idx)) +
   (if stored_score state idx rid mid = None then 1 else 0)"
proof (induction vs arbitrary: state)
  case Nil
  then show ?case by simp
next
  case (Cons v vs)
  let ?p = "\<lparr>payload_responseId = rid, payload_metricId = mid, payload_value = v\<rparr>"
  have first: "length (pair_records rid mid (entry_of (edited_store idx ?p state) idx)) =
      length (pair_records rid mid (entry_of state idx)) +
      (if stored_score state idx rid mid = None then 1 else 0)"
    using length_pair_records_edited_store [of ?p idx state] by simp
  show ?case
  proof (cases "vs = []")
    case True
    with first show ?thesis by (simp add: edited_stores_def)
  next
    case False
    have "stored_score (edited_store idx ?p state) idx rid mid = Some v"
      using stored_score_edited_store [of idx ?p state] by simp
    with Cons.IH [OF False, of "edited_store idx ?p state"] first
    show ?thesis by (simp add: edited_stores_Cons)
  qed
qed

text \<open>
  Runs in which no call raises: the case has an entry, or its id is not the name of an
  inherited property. After a non-empty run of \<open>setEvaluation\<close> calls on one (case,
  response, metric) triple, the score read back for the triple is the value of the last
  call. The whole run adds one metric record for the pair when no score could be read for
  it before, and none otherwise; so in an entry that satisfies the invariant of the data
  model the pair has exactly one metric record after the run, and the invariant still
  holds. Repeating the last call changes nothing; and the metric records of every other
  pair, in every case, are the ones that were there before.
\<close>

lemma set_scores_last_write_wins:
  assumes "vs \<noteq> []" and "evaluation state idx \<noteq> None \<or> \<not> inherited_property idx"
  shows "\<exists>state'. set_scores idx rid mid vs state = Inr state' \<and>
         stored_score state' idx rid mid = Some (last vs) \<and>
         length (pair_records rid mid (entry_of state' idx)) =
           length (pair_records rid mid (entry_of state idx)) +
           (if stored_score state idx rid mid = None then 1 else 0) \<and>
         (wf_entry (entry_of state idx) \<longrightarrow>
            length (pair_records rid mid (entry_of state' idx)) = 1 \<and> wf_entry (entry_of state' idx)) \<and>
         set_scores idx rid mid (vs @ [last vs]) state = Inr state' \<and>
         (\<forall>idx' rid' mid'. (idx', rid', mid') \<noteq> (idx, rid, mid) \<longrightarrow>
            pair_records rid' mid' (entry_of state' idx') = pair_records rid' mid' (entry_of state idx'))"
proof -
  let ?s = "edited_stores idx rid mid vs state"
  have one: "length (pair_records rid mid (entry_of ?s idx)) = 1"
    if wf: "wf_entry (entry_of state idx)"
  proof -
    have "wf_entry (entry_of ?s idx)"
      using wf by (rule edited_stores_wf)
    then have "length (pair_records rid mid (entry_of ?s idx)) \<le> 1"
      by (rule pair_records_le1)
    moreover have "pair_records rid mid (entry_of ?s idx) \<noteq> []"
      using assms(1) by (rule edited_stores_pair_nonempty)
    ultimately show ?thesis
      by (cases "pair_records rid mid (entry_of ?s idx)") simp_all
  qed
  have others: "\<forall>idx' rid' mid'. (idx', rid', mid') \<noteq> (idx, rid, mid) \<longrightarrow>
            pair_records rid' mid' (entry_of ?s idx') = pair_records rid' mid' (entry_of state idx')"
    using edited_stores_other by blast
  have run: "set_scores idx rid mid vs state = Inr ?s"
    using assms(2) by (rule set_scores_returns)
  have again: "set_scores idx rid mid (vs @ [last vs]) state = Inr ?s"
    using assms by (simp add: set_scores_returns edited_stores_repeat_last)
  have props: "stored_score ?s idx rid mid = Some (last vs) \<and>
         length (pair_records rid mid (entry_of ?s idx)) =
           length (pair_records rid mid (entry_of state idx)) +
           (if stored_score state idx rid mid = None then 1 else 0) \<and>
         (wf_entry (entry_of state idx) \<longrightarrow>
            length (pair_records rid mid (entry_of ?s idx)) = 1 \<and> wf_entry (entry_of ?s idx))"
    using assms(1) one edited_stores_count [OF assms(1), of rid mid idx state]
    by (simp add: edited_stores_last edited_stores_wf)
  from run again props others show ?thesis by blast
qed

text \<open>Any call that returns can be repeated and returns the same state.\<close>

lemma setEvaluation_idem:
  "setEvaluation idx p state = Inr state' \<Longrightarrow> setEvaluation idx p state' = Inr state'"
proof -
  assume ret: "setEvaluation idx p state = Inr state'"
  then have s': "state' = edited_store idx p state"
    by (simp add: setEvaluation_def split: if_splits)
  have "setEvaluation idx p (edited_store idx p state) = Inr (edited_store idx p (edited_store idx p state))"
    by (rule setEvaluation_returns) (simp add: evaluation_edited_store)
  with s' show ?thesis by (simp add: edited_store_idem)
qed

text \<open>
  Claim C4, at a case id that names an inherited property. In the empty store the case
  \<open>toString\<close> has no entry. Each call of a run on (\<open>toString\<close>, \<open>model-1\<close>, \<open>m1\<close>) raises a
  \<open>TypeError\<close> and returns no state, the call with the last value included: the store
  stays empty and the value of the last call is not stored.
\<close>

theorem setScore_run_inherited_key:
  "evaluation empty_store ''toString'' = None \<and>
   set_scores ''toString'' ''model-1'' ''m1'' [Some (Num 3), None, Some (Num 5)] empty_store =
     Inl TypeError \<and>
   setEvaluation ''toString''
     \<lparr>payload_responseId = ''model-1'', payload_metricId = ''m1'', payload_value = Some (Num 5)\<rparr>
     empty_store = Inl TypeError"
  by (simp add: setEvaluation_def inherited_property_def empty_store_def)

text \<open>The same run on a case id that is no inherited name, in a store that holds the
  case \<open>c1\<close>: last write wins, one record for the pair, the other pair untouched.\<close>

lemma set_scores_example:
  "\<exists>state'. set_scores ''c1'' ''model-1'' ''m1'' [Some (Num 3), None, Some (Num 5)] sample_store = Inr state' \<and>
     stored_score state' ''c1'' ''model-1'' ''m1'' = Some (Some (Num 5)) \<and>
     length (pair_records ''model-1'' ''m1'' (entry_of state' ''c1'')) = 1 \<and>
     pair_records ''model-1'' ''m2'' (entry_of state' ''c1'') =
       [\<lparr>metric_id = ''m2'', metric_name = ''Relevance'', metric_description = Some [], metric_value = Some (Num 4)\<rparr>]"
proof -
  have ne: "[Some (Num 3), None, Some (Num 5)] \<noteq> []" by simp
  have entry: "evaluation sample_store ''c1'' \<noteq> None \<or> \<not> inherited_property ''c1''"
    by (simp add: sample_store_def)
  have wf: "wf_entry (entry_of sample_store ''c1'')"
    by (simp add: wf_entry_def entry_of_def sample_store_def)
  have other: "(''c1'', ''model-1'', ''m2'') \<noteq> (''c1'', ''model-1'', ''m1'')" by simp
  have old: "pair_records ''model-1'' ''m2'' (entry_of sample_store ''c1'') =
    [\<lparr>metric_id = ''m2'', metric_name = ''Relevance'', metric_description = Some [], metric_value = Some (Num 4)\<rparr>]"
    by (simp add: pair_records_def entry_of_def sample_store_def)
  from set_scores_last_write_wins [OF ne entry, of "''model-1''" "''m1''"]
  obtain state' where run: "set_scores ''c1'' ''model-1'' ''m1'' [Some (Num 3), None, Some (Num 5)] sample_store = Inr state'"
    and a: "stored_score state' ''c1'' ''model-1'' ''m1'' = Some (last [Some (Num 3), None, Some (Num 5)])"
    and b: "wf_entry (entry_of sample_store ''c1'') \<longrightarrow>
            length (pair_records ''model-1'' ''m1'' (entry_of state' ''c1'')) = 1 \<and> wf_entry (entry_of state' ''c1'')"
    and c: "\<forall>idx' rid' mid'. (idx', rid', mid') \<noteq> (''c1'', ''model-1'', ''m1'') \<longrightarrow>
            pair_records rid' mid' (entry_of state' idx') = pair_records rid' mid' (entry_of sample_store idx')"
    by blast
  from a have a': "stored_score state' ''c1'' ''model-1'' ''m1'' = Some (Some (Num 5))" by simp
  from b wf have b': "length (pair_records ''model-1'' ''m1'' (entry_of state' ''c1'')) = 1" by simp
  from c [THEN spec, THEN spec, THEN spec, THEN mp, OF other] old
  have c': "pair_records ''model-1'' ''m2'' (entry_of state' ''c1'') =
       [\<lparr>metric_id = ''m2'', metric_name = ''Relevance'', metric_description = Some [], metric_value = Some (Num 4)\<rparr>]"
    by simp
  from run a' b' c' show ?thesis by blast
qed

subsection \<open>The first edit of a case\<close>

text \<open>
  For a case with no entry in the store whose id is not the name of an inherited
  property, \<open>setEvaluation\<close> creates the entry from the three synthetic slots \<open>model-1\<close>,
  \<open>model-2\<close>, \<open>model-3\<close> with empty metric lists and applies the edit to it: the edited
  triple is stored, and the entry has three slots when the edited response is one of the
  three, four otherwise.
\<close>

lemma setEvaluation_new_case:
  assumes "evaluation state idx = None" and "\<not> inherited_property idx"
  shows "\<exists>state'. setEvaluation idx p state = Inr state' \<and>
         evaluation state' idx = Some (edit_slots p synthetic_slots) \<and>
         synthetic_slots =
           [\<lparr>responseId = ''model-1'', metrics = []\<rparr>, \<lparr>responseId = ''model-2'', metrics = []\<rparr>,
            \<lparr>responseId = ''model-3'', metrics = []\<rparr>] \<and>
         stored_score state' idx (payload_responseId p) (payload_metricId p) = Some (payload_value p) \<and>
         map responseId (entry_of state' idx) =
           (if payload_responseId p \<in> {''model-1'', ''model-2'', ''model-3''}
            then [''model-1'', ''model-2'', ''model-3'']
            else [''model-1'', ''model-2'', ''model-3'', payload_responseId p]) \<and>
         length (entry_of state' idx) =
           (if payload_responseId p \<in> {''model-1'', ''model-2'', ''model-3''} then 3 else 4)"
proof -
  let ?s = "edited_store idx p state"
  have ids: "map responseId (entry_of ?s idx) =
           (if payload_responseId p \<in> {''model-1'', ''model-2'', ''model-3''}
            then [''model-1'', ''model-2'', ''model-3'']
            else [''model-1'', ''model-2'', ''model-3'', payload_responseId p])"
    using assms(1) by (simp add: entry_of_edited_store map_responseId_edit_slots synthetic_slots_eq)
  have "length (entry_of ?s idx) = length (map responseId (entry_of ?s idx))"
    by (simp only: length_map)
  also have "\<dots> = (if payload_responseId p \<in> {''model-1'', ''model-2'', ''model-3''} then 3 else 4)"
    by (simp only: ids if_distrib [of length] list.size) simp
  finally have len: "length (entry_of ?s idx) =
           (if payload_responseId p \<in> {''model-1'', ''model-2'', ''model-3''} then 3 else 4)" .
  have new: "evaluation ?s idx = Some (edit_slots p synthetic_slots)"
    using assms(1) by (simp add: edited_store_def)
  have ret: "setEvaluation idx p state = Inr ?s"
    using assms(2) by (simp add: setEvaluation_returns)
  have "setEvaluation idx p state = Inr ?s \<and>
         evaluation ?s idx = Some (edit_slots p synthetic_slots) \<and>
         synthetic_slots =
           [\<lparr>responseId = ''model-1'', metrics = []\<rparr>, \<lparr>responseId = ''model-2'', metrics = []\<rparr>,
            \<lparr>responseId = ''model-3'', metrics = []\<rparr>] \<and>
         stored_score ?s idx (payload_responseId p) (payload_metricId p) = Some (payload_value p) \<and>
         map responseId (entry_of ?s idx) =
           (if payload_responseId p \<in> {''model-1'', ''model-2'', ''model-3''}
            then [''model-1'', ''model-2'', ''model-3'']
            else [''model-1'', ''model-2'', ''model-3'', payload_responseId p]) \<and>
         length (entry_of ?s idx) =
           (if payload_responseId p \<in> {''model-1'', ''model-2'', ''model-3''} then 3 else 4)"
    by (intro conjI ret new synthetic_slots_eq stored_score_edited_store ids len)
  then show ?thesis by (rule exI [of _ "edited_store idx p state"])
qed

text \<open>
  Claim C5, at a case id that names an inherited property. In the empty store the case
  \<open>constructor\<close> has no entry, yet the first call for it creates no slots: it raises a
  \<open>TypeError\<close> and returns no state, so the store still has no entry for the case and the
  edited triple is not stored. For the case \<open>c9\<close> the same call creates the three slots
  and stores the triple.
\<close>

theorem setScore_new_case_inherited_key:
  "evaluation empty_store ''constructor'' = None \<and>
   setEvaluation ''constructor''
     \<lparr>payload_responseId = ''model-2'', payload_metricId = ''m1'', payload_value = Some (Num 4)\<rparr>
     empty_store = Inl TypeError \<and>
   evaluation empty_store ''c9'' = None \<and>
   setEvaluation ''c9''
     \<lparr>payload_responseId = ''model-2'', payload_metricId = ''m1'', payload_value = Some (Num 4)\<rparr>
     empty_store =
   Inr (empty_store\<lparr>evaluation := [''c9'' \<mapsto>
     [\<lparr>responseId = ''model-1'', metrics = []\<rparr>,
      \<lparr>responseId = ''model-2'', metrics =
         [\<lparr>metric_id = ''m1'', metric_name = [], metric_description = None, metric_value = Some (Num 4)\<rparr>]\<rparr>,
      \<lparr>responseId = ''model-3'', metrics = []\<rparr>]]\<rparr>)"
  by (simp add: setEvaluation_def inherited_property_def empty_store_def edited_store_def
      synthetic_slots_eq edit_slots_Cons edit_metrics_Nil pushed_metric_def)

section \<open>Properties of the submission\<close>

subsection \<open>\<open>Promise.all\<close> and the run of \<open>handleSubmit\<close>\<close>

lemma promise_all_map_Resolved: "promise_all (map Resolved xs) = Resolved xs"
  by (induction xs) simp_all

lemma promise_all_Resolved_D: "promise_all ps = Resolved xs \<Longrightarrow> ps = map Resolved xs"
proof (induction ps arbitrary: xs)
  case Nil
  then show ?case by simp
next
  case (Cons p ps)
  show ?case
  proof (cases p)
    case Rejected
    with Cons.prems show ?thesis by simp
  next
    case (Resolved x)
    with Cons.prems obtain ys where ys: "promise_all ps = Resolved ys" and xs: "xs = x # ys"
      by (cases "promise_all ps") simp_all
    from Cons.IH [OF ys] Resolved xs show ?thesis by simp
  qed
qed

lemma promise_all_Rejected_iff: "promise_all ps = Rejected \<longleftrightarrow> Rejected \<in> set ps"
  by (induction ps rule: promise_all.induct) (auto split: settled.splits)

lemma updateSingleEvaluation_eq:
  "updateSingleEvaluation server data sent = (server (length sent) data, sent @ [data])"
  by (simp add: updateSingleEvaluation_def post_update_def split: settled.splits)

lemma submissionPromises_eq:
  "submissionPromises server requests sent =
     (map (\<lambda>(i, request). server i request) (enumerate (length sent) requests), sent @ requests)"
  by (induction requests arbitrary: sent) (simp_all add: updateSingleEvaluation_eq)

lemma handleSubmit_run:
  assumes "caseId \<noteq> []" and "evaluatorId \<noteq> []" and "evaluation (store st) caseId = Some slots"
  shows "handleSubmit server (Some caseId) (Some evaluatorId) st =
     report_results caseId
       (promise_all (fst (submissionPromises server (submissionRequests caseId evaluatorId slots) [])))
       (st\<lparr>posted := posted st @
          snd (submissionPromises server (submissionRequests caseId evaluatorId slots) [])\<rparr>)"
  using assms by (simp add: handleSubmit_def split: prod.splits)

lemma posted_report_results: "posted (report_results caseId outcome st) = posted st"
  by (simp add: report_results_def Let_def submit_failed_def split: settled.splits option.splits)

lemma handleSubmit_posted:
  assumes "caseId \<noteq> []" and "evaluatorId \<noteq> []" and "evaluation (store st) caseId = Some slots"
  shows "posted (handleSubmit server (Some caseId) (Some evaluatorId) st) =
         posted st @ submissionRequests caseId evaluatorId slots"
  by (simp add: handleSubmit_run [OF assms] posted_report_results submissionPromises_eq)

lemma handleSubmit_resolved:
  assumes "caseId \<noteq> []" and "evaluatorId \<noteq> []" and "evaluation (store st) caseId = Some slots"
    and "fst (submissionPromises server (submissionRequests caseId evaluatorId slots) []) = map Resolved results"
    and "results \<noteq> []"
  shows "doneForId (store (handleSubmit server (Some caseId) (Some evaluatorId) st)) =
           (if response_status (last results) = ''completed''
            then (doneForId (store st))(caseId \<mapsto> True) else doneForId (store st))"
    and "response_status (last results) = ''completed'' \<Longrightarrow>
         toasts (handleSubmit server (Some caseId) (Some evaluatorId) st) = toasts st @ [success_toast]"
    and "response_status (last results) \<noteq> ''completed'' \<Longrightarrow> response_progress (last results) = Some p \<Longrightarrow>
         toasts (handleSubmit server (Some caseId) (Some evaluatorId) st) = toasts st @ [partial_toast p]"
    and "response_status (last results) \<noteq> ''completed'' \<Longrightarrow> response_progress (last results) = None \<Longrightarrow>
         toasts (handleSubmit server (Some caseId) (Some evaluatorId) st) = toasts st @ [submit_error_toast]"
proof -
  have all: "promise_all (fst (submissionPromises server (submissionRequests caseId evaluatorId slots) [])) =
             Resolved results"
    using assms(4) by (simp add: promise_all_map_Resolved)
  note run = handleSubmit_run [OF assms(1-3), of server, unfolded all] report_results_def Let_def
  show "doneForId (store (handleSubmit server (Some caseId) (Some evaluatorId) st)) =
           (if response_status (last results) = ''completed''
            then (doneForId (store st))(caseId \<mapsto> True) else doneForId (store st))"
    using assms(5) by (simp add: run submit_failed_def setDoneForId_def split: option.splits)
  show "toasts (handleSubmit server (Some caseId) (Some evaluatorId) st) = toasts st @ [success_toast]"
    if "response_status (last results) = ''completed''"
    using assms(5) that by (simp add: run)
  show "toasts (handleSubmit server (Some caseId) (Some evaluatorId) st) = toasts st @ [partial_toast p]"
    if "response_status (last results) \<noteq> ''completed''" "response_progress (last results) = Some p"
    using assms(5) that by (simp add: run)
  show "toasts (handleSubmit server (Some caseId) (Some evaluatorId) st) = toasts st @ [submit_error_toast]"
    if "response_status (last results) \<noteq> ''completed''" "response_progress (last results) = None"
    using assms(5) that by (simp add: run submit_failed_def)
qed

lemma handleSubmit_rejected:
  assumes "caseId \<noteq> []" and "evaluatorId \<noteq> []" and "evaluation (store st) caseId = Some slots"
    and "Rejected \<in> set (fst (submissionPromises server (submissionRequests caseId evaluatorId slots) []))"
  shows "toasts (handleSubmit server (Some caseId) (Some evaluatorId) st) = toasts st @ [submit_error_toast]"
    and "store (handleSubmit server (Some caseId) (Some evaluatorId) st) = store st"
proof -
  have rej: "promise_all (fst (submissionPromises server (submissionRequests caseId evaluatorId slots) [])) = Rejected"
    using assms(4) by (simp add: promise_all_Rejected_iff)
  note run = handleSubmit_run [OF assms(1-3), of server, unfolded rej] report_results_def
  show "toasts (handleSubmit server (Some caseId) (Some evaluatorId) st) = toasts st @ [submit_error_toast]"
    by (simp add: run submit_failed_def)
  show "store (handleSubmit server (Some caseId) (Some evaluatorId) st) = store st"
    by (simp add: run submit_failed_def)
qed

subsection \<open>The outcome reported\<close>

text \<open>
  Claim C1, as amended. In a submission of a case (active record, evaluator id and entry
  present) whose requests all resolve, with at least one request: the completion flag of
  the case is set to true when the status of the last result is \<open>completed\<close>, and the
  flags are left as they were otherwise; with that status the success toast is raised;
  with another status and progress counters in the last result, the partial-progress
  toast built from those counters is raised. If a request is rejected, the generic
  failure toast is raised and the flags are left as they were.
\<close>

theorem handleSubmit_outcome:
  assumes "caseId \<noteq> []" and "evaluatorId \<noteq> []" and "evaluation (store st) caseId = Some slots"
  shows "(\<forall>results.
            results \<noteq> [] \<and>
            fst (submissionPromises server (submissionRequests caseId evaluatorId slots) []) = map Resolved results \<longrightarrow>
              doneForId (store (handleSubmit server (Some caseId) (Some evaluatorId) st)) =
                (if response_status (last results) = ''completed''
                 then (doneForId (store st))(caseId \<mapsto> True) else doneForId (store st)) \<and>
              (response_status (last results) = ''completed'' \<longrightarrow>
                 toasts (handleSubmit server (Some caseId) (Some evaluatorId) st) =
                   toasts st @ [success_toast]) \<and>
              (\<forall>p. response_status (last results) \<noteq> ''completed'' \<and>
                   response_progress (last results) = Some p \<longrightarrow>
                 toasts (handleSubmit server (Some caseId) (Some evaluatorId) st) =
                   toasts st @ [partial_toast p])) \<and>
         (Rejected \<in> set (fst (submissionPromises server (submissionRequests caseId evaluatorId slots) [])) \<longrightarrow>
            toasts (handleSubmit server (Some caseId) (Some evaluatorId) st) =
              toasts st @ [submit_error_toast] \<and>
            doneForId (store (handleSubmit server (Some caseId) (Some evaluatorId) st)) =
              doneForId (store st))"
proof (intro conjI allI impI; (elim conjE)?)
  fix results
  assume ne: "results \<noteq> []"
    and all: "fst (submissionPromises server (submissionRequests caseId evaluatorId slots) []) = map Resolved results"
  show "doneForId (store (handleSubmit server (Some caseId) (Some evaluatorId) st)) =
                (if response_status (last results) = ''completed''
                 then (doneForId (store st))(caseId \<mapsto> True) else doneForId (store st))"
    by (rule handleSubmit_resolved(1) [OF assms all ne])
  show "toasts (handleSubmit server (Some caseId) (Some evaluatorId) st) = toasts st @ [success_toast]"
    if "response_status (last results) = ''completed''"
    by (rule handleSubmit_resolved(2) [OF assms all ne that])
  show "toasts (handleSubmit server (Some caseId) (Some evaluatorId) st) = toasts st @ [partial_toast p]"
    if "response_status (last results) \<noteq> ''completed''" "response_progress (last results) = Some p" for p
    by (rule handleSubmit_resolved(3) [OF assms all ne that])
next
  assume rej: "Rejected \<in> set (fst (submissionPromises server (submissionRequests caseId evaluatorId slots) []))"
  show "toasts (handleSubmit server (Some caseId) (Some evaluatorId) st) = toasts st @ [submit_error_toast]"
    by (rule handleSubmit_rejected(1) [OF assms rej])
  show "doneForId (store (handleSubmit server (Some caseId) (Some evaluatorId) st)) = doneForId (store st)"
    by (simp only: handleSubmit_rejected(2) [OF assms rej])
qed

lemma sample_requests:
  "submissionRequests ''c1'' ''d7'' (the (evaluation sample_store ''c1'')) =
     [\<lparr>req_caseId = ''c1'', req_responseId = ''model-1'', req_metricId = ''m1'',
        req_evaluatorId = Some ''d7'', req_score = Num 2\<rparr>,
      \<lparr>req_caseId = ''c1'', req_responseId = ''model-1'', req_metricId = ''m2'',
        req_evaluatorId = Some ''d7'', req_score = Num 4\<rparr>]"
  by (simp add: submissionRequests_def sample_store_def scored_def greater_than_def)

lemma sample_page_entry:
  "evaluation (store sample_page) ''c1'' = Some (the (evaluation sample_store ''c1''))"
  by (simp add: sample_page_def sample_store_def)

theorem handleSubmit_outcome_witness:
  "doneForId (store (handleSubmit (counting_server 2) (Some ''c1'') (Some ''d7'') sample_page)) =
     [''c1'' \<mapsto> True] \<and>
   toasts (handleSubmit (counting_server 2) (Some ''c1'') (Some ''d7'') sample_page) = [success_toast] \<and>
   doneForId (store (handleSubmit (counting_server 3) (Some ''c1'') (Some ''d7'') sample_page)) =
     Map.empty \<and>
   toasts (handleSubmit (counting_server 3) (Some ''c1'') (Some ''d7'') sample_page) =
     [\<lparr>toast_title = ''Partial Success'', toast_description = ''2 of 3 evaluations completed'',
       toast_variant = Some ''default''\<rparr>] \<and>
   toasts (handleSubmit offline_server (Some ''c1'') (Some ''d7'') sample_page) = [submit_error_toast] \<and>
   doneForId (store (handleSubmit offline_server (Some ''c1'') (Some ''d7'') sample_page)) = Map.empty"
proof -
  have c: "''c1'' \<noteq> []" and d: "''d7'' \<noteq> []" by simp_all
  note inst = handleSubmit_outcome [OF c d sample_page_entry]
  let ?in_progress = "\<lambda>k n. \<lparr>response_status = ''in_progress'',
     response_progress = Some \<lparr>progress_completed = k, progress_total = n\<rparr>\<rparr>"
  let ?completed = "\<lambda>k n. \<lparr>response_status = ''completed'',
     response_progress = Some \<lparr>progress_completed = k, progress_total = n\<rparr>\<rparr>"
  have two: "[?in_progress 1 2, ?completed 2 2] \<noteq> [] \<and>
    fst (submissionPromises (counting_server 2)
      (submissionRequests ''c1'' ''d7'' (the (evaluation sample_store ''c1''))) []) =
    map Resolved [?in_progress 1 2, ?completed 2 2]"
    by (simp add: sample_requests submissionPromises_eq counting_server_def)
  have three: "[?in_progress 1 3, ?in_progress 2 3] \<noteq> [] \<and>
    fst (submissionPromises (counting_server 3)
      (submissionRequests ''c1'' ''d7'' (the (evaluation sample_store ''c1''))) []) =
    map Resolved [?in_progress 1 3, ?in_progress 2 3]"
    by (simp add: sample_requests submissionPromises_eq counting_server_def)
  have off: "Rejected \<in> set (fst (submissionPromises offline_server
      (submissionRequests ''c1'' ''d7'' (the (evaluation sample_store ''c1''))) []))"
    by (simp add: sample_requests submissionPromises_eq offline_server_def)
  note r2 = inst [of "counting_server 2", THEN conjunct1, THEN spec, THEN mp, OF two]
  note r3 = inst [of "counting_server 3", THEN conjunct1, THEN spec, THEN mp, OF three]
  note r0 = inst [of offline_server, THEN conjunct2, THEN mp, OF off]
  have a: "doneForId (store (handleSubmit (counting_server 2) (Some ''c1'') (Some ''d7'') sample_page)) =
     [''c1'' \<mapsto> True]"
    using r2 [THEN conjunct1] by (simp add: sample_page_def sample_store_def)
  have b: "toasts (handleSubmit (counting_server 2) (Some ''c1'') (Some ''d7'') sample_page) = [success_toast]"
    using r2 [THEN conjunct2, THEN conjunct1] by (simp add: sample_page_def)
  have c3: "doneForId (store (handleSubmit (counting_server 3) (Some ''c1'') (Some ''d7'') sample_page)) =
     Map.empty"
    using r3 [THEN conjunct1] by (simp add: sample_page_def sample_store_def)
  have d3: "toasts (handleSubmit (counting_server 3) (Some ''c1'') (Some ''d7'') sample_page) =
     [\<lparr>toast_title = ''Partial Success'', toast_description = ''2 of 3 evaluations completed'',
       toast_variant = Some ''default''\<rparr>]"
    using r3 [THEN conjunct2, THEN conjunct2, THEN spec,
        of "\<lparr>progress_completed = 2, progress_total = 3\<rparr>"]
    by (simp add: sample_page_def partial_toast_def decimal_int_def digit_char_def)
  have e: "toasts (handleSubmit offline_server (Some ''c1'') (Some ''d7'') sample_page) = [submit_error_toast]"
    using r0 [THEN conjunct1] by (simp add: sample_page_def)
  have f: "doneForId (store (handleSubmit offline_server (Some ''c1'') (Some ''d7'') sample_page)) = Map.empty"
    using r0 [THEN conjunct2] by (simp add: sample_page_def sample_store_def)
  from a b c3 d3 e f show ?thesis by (simp only: simp_thms)
qed

text \<open>
  The claim as first stated, a partial-progress message whenever the status of the last
  result is not \<open>completed\<close>, fails for an answer without \<open>progress\<close>: every request
  resolves with \<open>{status: 'error'}\<close>, reading the counters raises, and the toast is the
  generic failure.
\<close>

theorem handleSubmit_no_progress_counterexample:
  "fst (submissionPromises error_status_server
     (submissionRequests ''c1'' ''d7'' (the (evaluation (store sample_page) ''c1''))) []) =
     map Resolved
       [\<lparr>response_status = ''error'', response_progress = None\<rparr>,
        \<lparr>response_status = ''error'', response_progress = None\<rparr>] \<and>
   toasts (handleSubmit error_status_server (Some ''c1'') (Some ''d7'') sample_page) =
     [\<lparr>toast_title = ''Error'', toast_description = ''Failed to submit evaluations. Please try again.'',
       toast_variant = Some ''destructive''\<rparr>]"
proof -
  have c: "''c1'' \<noteq> []" and d: "''d7'' \<noteq> []" by simp_all
  have all: "fst (submissionPromises error_status_server
      (submissionRequests ''c1'' ''d7'' (the (evaluation sample_store ''c1''))) []) =
    map Resolved [\<lparr>response_status = ''error'', response_progress = None\<rparr>,
        \<lparr>response_status = ''error'', response_progress = None\<rparr>]"
    by (simp add: sample_requests submissionPromises_eq error_status_server_def)
  have "toasts (handleSubmit error_status_server (Some ''c1'') (Some ''d7'') sample_page) =
        toasts sample_page @ [submit_error_toast]"
    by (rule handleSubmit_resolved(4) [OF c d sample_page_entry all]) simp_all
  with all show ?thesis
    by (simp add: sample_page_def submit_error_toast_def)
qed

subsection \<open>The requests issued\<close>

lemma scored_positive: "scored v = positive_score v"
  by (cases v rule: positive_score.cases) (simp_all add: scored_def greater_than_def)

lemma request_triples_slot:
  "map request_triple
     (map (\<lambda>x. \<lparr>req_caseId = c, req_responseId = r, req_metricId = metric_id x,
                req_evaluatorId = Some e, req_score = the (metric_value x)\<rparr>)
        (filter (\<lambda>x. scored (metric_value x)) ms)) =
   map (\<lambda>(rid, mid, v). (rid, mid, the v))
     (filter (\<lambda>(rid, mid, v). positive_score v) (map (\<lambda>x. (r, metric_id x, metric_value x)) ms))"
  by (induction ms) (simp_all add: request_triple_def scored_positive)

lemma request_triples: "map request_triple (submissionRequests c e slots) = scored_triples slots"
proof (induction slots)
  case Nil
  show ?case by (simp add: submissionRequests_def scored_triples_def score_triples_def)
next
  case (Cons s slots)
  have "map request_triple (submissionRequests c e (s # slots)) =
        map request_triple
          (map (\<lambda>x. \<lparr>req_caseId = c, req_responseId = responseId s, req_metricId = metric_id x,
                req_evaluatorId = Some e, req_score = the (metric_value x)\<rparr>)
            (filter (\<lambda>x. scored (metric_value x)) (metrics s))) @
        map request_triple (submissionRequests c e slots)"
    by (simp add: submissionRequests_def)
  also have "\<dots> = map (\<lambda>(rid, mid, v). (rid, mid, the v))
       (filter (\<lambda>(rid, mid, v). positive_score v) (map (\<lambda>x. (responseId s, metric_id x, metric_value x)) (metrics s))) @
      scored_triples slots"
    by (simp only: request_triples_slot Cons.IH)
  also have "\<dots> = scored_triples (s # slots)"
    by (simp add: scored_triples_def score_triples_def)
  finally show ?case .
qed

lemma requests_addressed:
  "list_all (\<lambda>q. req_caseId q = c \<and> req_evaluatorId q = Some e) (submissionRequests c e slots)"
  by (auto simp add: submissionRequests_def list_all_iff)

lemma handleSubmit_no_evaluator:
  "caseId \<noteq> [] \<Longrightarrow> doctorId = None \<or> doctorId = Some [] \<Longrightarrow>
   handleSubmit server (Some caseId) doctorId st = submit_failed st"
  by (auto simp add: handleSubmit_def)

text \<open>
  Claim C6, as amended. In a submission of a case whose entry exists, with an evaluator id
  present, \<open>updateSingleEvaluation\<close> is called once per scored triple of the entry and for
  nothing else: the requests the calls send are, in the order of the entry, one per
  (response id, metric id, value) triple whose value is not \<open>null\<close> and greater than 0,
  each carrying its triple, the case and the evaluator.
\<close>

theorem handleSubmit_requests:
  assumes "caseId \<noteq> []" and "evaluatorId \<noteq> []" and "evaluation (store st) caseId = Some slots"
  shows "\<exists>sent. posted (handleSubmit server (Some caseId) (Some evaluatorId) st) = posted st @ sent \<and>
           map request_triple sent = scored_triples slots \<and>
           list_all (\<lambda>q. req_caseId q = caseId \<and> req_evaluatorId q = Some evaluatorId) sent"
proof (intro exI conjI)
  show "posted (handleSubmit server (Some caseId) (Some evaluatorId) st) =
        posted st @ submissionRequests caseId evaluatorId slots"
    by (rule handleSubmit_posted [OF assms])
  show "map request_triple (submissionRequests caseId evaluatorId slots) = scored_triples slots"
    by (rule request_triples)
  show "list_all (\<lambda>q. req_caseId q = caseId \<and> req_evaluatorId q = Some evaluatorId)
          (submissionRequests caseId evaluatorId slots)"
    by (rule requests_addressed)
qed

lemma example_matrix_triples:
  "scored_triples (the (evaluation (store example_matrix_page) ''c1'')) = [(''model-1'', ''m1'', Num 4)]"
  by (simp add: example_matrix_page_def scored_triples_def score_triples_def)

text \<open>The example of the specification, scores \<open>{model-1: {m1: 4, m2: null}, model-2:
  {m1: 0}}\<close>: one call, for \<open>model-1\<close>, \<open>m1\<close>, 4, whether the backend answers or not.\<close>

theorem handleSubmit_requests_witness:
  "scored_triples (the (evaluation (store example_matrix_page) ''c1'')) = [(''model-1'', ''m1'', Num 4)] \<and>
   posted (handleSubmit offline_server (Some ''c1'') (Some ''d7'') example_matrix_page) =
     [\<lparr>req_caseId = ''c1'', req_responseId = ''model-1'', req_metricId = ''m1'',
       req_evaluatorId = Some ''d7'', req_score = Num 4\<rparr>] \<and>
   posted (handleSubmit (counting_server 1) (Some ''c1'') (Some ''d7'') example_matrix_page) =
     [\<lparr>req_caseId = ''c1'', req_responseId = ''model-1'', req_metricId = ''m1'',
       req_evaluatorId = Some ''d7'', req_score = Num 4\<rparr>]"
proof -
  have c: "''c1'' \<noteq> []" and d: "''d7'' \<noteq> []" by simp_all
  have entry: "evaluation (store example_matrix_page) ''c1'' =
      Some (the (evaluation (store example_matrix_page) ''c1''))"
    by (simp add: example_matrix_page_def)
  have none: "posted example_matrix_page = []"
    by (simp add: example_matrix_page_def)
  have b: "posted (handleSubmit server (Some ''c1'') (Some ''d7'') example_matrix_page) =
     [\<lparr>req_caseId = ''c1'', req_responseId = ''model-1'', req_metricId = ''m1'',
       req_evaluatorId = Some ''d7'', req_score = Num 4\<rparr>]" for server
  proof -
    from handleSubmit_requests [OF c d entry, of server]
    obtain sent where p: "posted (handleSubmit server (Some ''c1'') (Some ''d7'') example_matrix_page) =
          posted example_matrix_page @ sent"
      and t: "map request_triple sent = scored_triples (the (evaluation (store example_matrix_page) ''c1''))"
      and q: "list_all (\<lambda>q. req_caseId q = ''c1'' \<and> req_evaluatorId q = Some ''d7'') sent"
      by blast
    from t have "map request_triple sent = [(''model-1'', ''m1'', Num 4)]"
      by (simp only: example_matrix_triples)
    then obtain r where sent: "sent = [r]" and r: "request_triple r = (''model-1'', ''m1'', Num 4)"
      by (cases sent) auto
    from q sent have "req_caseId r = ''c1''" "req_evaluatorId r = Some ''d7''" by simp_all
    with r have "r = \<lparr>req_caseId = ''c1'', req_responseId = ''model-1'', req_metricId = ''m1'',
       req_evaluatorId = Some ''d7'', req_score = Num 4\<rparr>"
      by (cases r) (simp add: request_triple_def)
    with p sent none show ?thesis by simp
  qed
  from example_matrix_triples b [of offline_server] b [of "counting_server 1"]
  show ?thesis by (simp only: simp_thms)
qed

text \<open>
  The claim as first stated, one call per scored triple in every submission of a case
  whose entry exists, fails without an evaluator id: \<open>handleSubmit\<close> throws before it
  reads the entry, so for the scores of the example and no \<open>doctorId\<close> parameter no call
  is made although the triple (\<open>model-1\<close>, \<open>m1\<close>, 4) is scored.
\<close>

theorem handleSubmit_no_evaluator_counterexample:
  "evaluation (store example_matrix_page) ''c1'' \<noteq> None \<and>
   scored_triples (the (evaluation (store example_matrix_page) ''c1'')) = [(''model-1'', ''m1'', Num 4)] \<and>
   posted (handleSubmit (counting_server 1) (Some ''c1'') None example_matrix_page) = [] \<and>
   toasts (handleSubmit (counting_server 1) (Some ''c1'') None example_matrix_page) = [submit_error_toast]"
proof -
  have "handleSubmit (counting_server 1) (Some ''c1'') None example_matrix_page =
        submit_failed example_matrix_page"
    by (rule handleSubmit_no_evaluator) simp_all
  then show ?thesis
    by (simp add: example_matrix_triples) (simp add: example_matrix_page_def submit_failed_def)
qed

lemma scored_triples_Nil_requests:
  "scored_triples slots = [] \<Longrightarrow> submissionRequests c e slots = []"
  using request_triples [of c e slots] by simp

text \<open>
  Claim C10. A submission of a case whose entry has no scored triple has no request to
  post, for any evaluator: \<open>Promise.all\<close> of no promise resolves with no result, there is
  no last result to read, and the submission, whatever the \<open>doctorId\<close> parameter is, posts
  nothing, raises the generic failure toast and leaves the store, and so the completion
  flags, as they were.
\<close>

theorem handleSubmit_nothing_scored:
  assumes "caseId \<noteq> []" and "evaluation (store st) caseId = Some slots"
    and "scored_triples slots = []"
  shows "(\<forall>evaluatorId. submissionRequests caseId evaluatorId slots = []) \<and>
         promise_all (fst (submissionPromises server [] [])) = Resolved [] \<and>
         posted (handleSubmit server (Some caseId) doctorId st) = posted st \<and>
         toasts (handleSubmit server (Some caseId) doctorId st) = toasts st @ [submit_error_toast] \<and>
         store (handleSubmit server (Some caseId) doctorId st) = store st"
proof -
  have none: "submissionRequests caseId evaluatorId slots = []" for evaluatorId
    using assms(3) by (rule scored_triples_Nil_requests)
  have empty: "promise_all (fst (submissionPromises server [] [])) = Resolved []"
    by simp
  have failed: "handleSubmit server (Some caseId) doctorId st = submit_failed st"
  proof (cases doctorId)
    case None
    with assms(1) show ?thesis by (simp add: handleSubmit_def)
  next
    case (Some evaluatorId)
    show ?thesis
    proof (cases "evaluatorId = []")
      case True
      with Some assms(1) show ?thesis by (simp add: handleSubmit_def)
    next
      case False
      from handleSubmit_run [OF assms(1) False assms(2), of server] Some
      show ?thesis by (simp add: none empty report_results_def submit_failed_def)
    qed
  qed
  from none empty show ?thesis by (simp add: failed submit_failed_def)
qed

theorem handleSubmit_nothing_scored_witness:
  "scored_triples (the (evaluation (store unscored_page) ''c1'')) = [] \<and>
   posted (handleSubmit (counting_server 1) (Some ''c1'') (Some ''d7'') unscored_page) = [] \<and>
   toasts (handleSubmit (counting_server 1) (Some ''c1'') (Some ''d7'') unscored_page) =
     [submit_error_toast] \<and>
   doneForId (store (handleSubmit (counting_server 1) (Some ''c1'') (Some ''d7'') unscored_page)) =
     Map.empty"
proof -
  have c: "''c1'' \<noteq> []" by simp
  have entry: "evaluation (store unscored_page) ''c1'' =
      Some (the (evaluation (store unscored_page) ''c1''))"
    by (simp add: unscored_page_def)
  have unscored: "scored_triples (the (evaluation (store unscored_page) ''c1'')) = []"
    by (simp add: unscored_page_def scored_triples_def score_triples_def)
  note inst = handleSubmit_nothing_scored [OF c entry unscored, of "counting_server 1" "Some ''d7''",
    THEN conjunct2, THEN conjunct2]
  have start: "posted unscored_page = []" "toasts unscored_page = []"
    "doneForId (store unscored_page) = Map.empty"
    by (simp_all add: unscored_page_def)
  have a: "posted (handleSubmit (counting_server 1) (Some ''c1'') (Some ''d7'') unscored_page) = []"
    using inst [THEN conjunct1] by (simp only: start)
  have b: "toasts (handleSubmit (counting_server 1) (Some ''c1'') (Some ''d7'') unscored_page) =
     [submit_error_toast]"
    using inst [THEN conjunct2, THEN conjunct1] by (simp only: start append_Nil)
  have e: "doneForId (store (handleSubmit (counting_server 1) (Some ''c1'') (Some ''d7'') unscored_page)) =
     Map.empty"
    using inst [THEN conjunct2, THEN conjunct2] by (simp only: start)
  from unscored a b e show ?thesis by (simp only: simp_thms)
qed

section \<open>Properties of an edit\<close>

text \<open>
  What the guard of \<open>updateEvaluation\<close> does with integers and with \<open>null\<close>. An edit
  with an integer below 1 or above 5 changes nothing: the store is not touched and no
  request is posted. An edit with \<open>null\<close>, for a case that has an entry or whose id is not
  the name of an inherited property, is applied to the store, where the triple then reads
  \<open>null\<close>, and is posted with score 0.
\<close>

lemma updateEvaluation_guard:
  "n < 1 \<or> 5 < n \<Longrightarrow> updateEvaluation activeRecordId doctorId rid mid (Some (Num n)) st = st"
  by (simp add: updateEvaluation_def less_than_def greater_than_def)

lemma updateEvaluation_clear:
  assumes "evaluation (store st) activeRecordId \<noteq> None \<or> \<not> inherited_property activeRecordId"
  shows "store (updateEvaluation activeRecordId doctorId rid mid None st) =
           edited_store activeRecordId
             \<lparr>payload_responseId = rid, payload_metricId = mid, payload_value = None\<rparr> (store st)"
    and "stored_score (store (updateEvaluation activeRecordId doctorId rid mid None st))
           activeRecordId rid mid = Some None"
    and "posted (updateEvaluation activeRecordId doctorId rid mid None st) =
           posted st @
             [\<lparr>req_caseId = activeRecordId, req_responseId = rid, req_metricId = mid,
               req_evaluatorId = doctorId, req_score = Num 0\<rparr>]"
  using stored_score_edited_store
    [of activeRecordId "\<lparr>payload_responseId = rid, payload_metricId = mid, payload_value = None\<rparr>" "store st"]
  by (simp_all add: updateEvaluation_def setEvaluation_returns [OF assms])

lemma updateEvaluation_examples:
  "updateEvaluation ''c1'' (Some ''d7'') ''model-1'' ''m1'' (Some (Num 6)) sample_page = sample_page \<and>
   updateEvaluation ''c1'' (Some ''d7'') ''model-1'' ''m1'' (Some (Num 0)) sample_page = sample_page \<and>
   stored_score (store (updateEvaluation ''c1'' (Some ''d7'') ''model-1'' ''m1'' None sample_page))
     ''c1'' ''model-1'' ''m1'' = Some None"
proof -
  have entry: "evaluation (store sample_page) ''c1'' \<noteq> None \<or> \<not> inherited_property ''c1''"
    by (simp add: sample_page_def sample_store_def)
  show ?thesis
    by (simp add: updateEvaluation_guard updateEvaluation_clear(2) [OF entry])
qed

text \<open>
  Claim C7, at the number \<open>NaN\<close> and at a record id that names an inherited property.
  \<open>NaN\<close> is a number outside 1 to 5, yet neither \<open>NaN < 1\<close> nor \<open>NaN > 5\<close> holds: the edit
  passes the guard, \<open>NaN\<close> is stored for the triple and a request with that score is
  posted. And for the record \<open>constructor\<close>, which has no entry, the edit with \<open>null\<close>
  passes the guard but \<open>setEvaluation\<close> raises inside \<open>try\<close>: nothing is stored and
  nothing is posted.
\<close>

theorem updateEvaluation_NaN_stored:
  "stored_score (store (updateEvaluation ''c1'' (Some ''d7'') ''model-1'' ''m1'' (Some NaN) sample_page))
     ''c1'' ''model-1'' ''m1'' = Some (Some NaN) \<and>
   posted (updateEvaluation ''c1'' (Some ''d7'') ''model-1'' ''m1'' (Some NaN) sample_page) =
     [\<lparr>req_caseId = ''c1'', req_responseId = ''model-1'', req_metricId = ''m1'',
       req_evaluatorId = Some ''d7'', req_score = NaN\<rparr>] \<and>
   evaluation (store blank_page) ''constructor'' = None \<and>
   updateEvaluation ''constructor'' (Some ''d7'') ''model-1'' ''m1'' None blank_page = blank_page"
proof -
  let ?p = "\<lparr>payload_responseId = ''model-1'', payload_metricId = ''m1'', payload_value = Some NaN\<rparr>"
  have entry: "evaluation (store sample_page) ''c1'' \<noteq> None \<or> \<not> inherited_property ''c1''"
    by (simp add: sample_page_def sample_store_def)
  have run: "updateEvaluation ''c1'' (Some ''d7'') ''model-1'' ''m1'' (Some NaN) sample_page =
     sample_page\<lparr>store := edited_store ''c1'' ?p (store sample_page),
       posted := posted sample_page @
         [\<lparr>req_caseId = ''c1'', req_responseId = ''model-1'', req_metricId = ''m1'',
           req_evaluatorId = Some ''d7'', req_score = NaN\<rparr>]\<rparr>"
    by (simp add: updateEvaluation_def less_than_def greater_than_def setEvaluation_returns [OF entry])
  have a: "stored_score (store (updateEvaluation ''c1'' (Some ''d7'') ''model-1'' ''m1'' (Some NaN) sample_page))
     ''c1'' ''model-1'' ''m1'' = Some (Some NaN)"
    using stored_score_edited_store [of "''c1''" ?p "store sample_page"] by (simp add: run)
  have b: "posted (updateEvaluation ''c1'' (Some ''d7'') ''model-1'' ''m1'' (Some NaN) sample_page) =
     [\<lparr>req_caseId = ''c1'', req_responseId = ''model-1'', req_metricId = ''m1'',
       req_evaluatorId = Some ''d7'', req_score = NaN\<rparr>]"
    by (simp add: run) (simp add: sample_page_def)
  have c: "evaluation (store blank_page) ''constructor'' = None"
    by (simp add: blank_page_def empty_store_def)
  have d: "updateEvaluation ''constructor'' (Some ''d7'') ''model-1'' ''m1'' None blank_page = blank_page"
    by (simp add: updateEvaluation_def setEvaluation_raises [OF c] inherited_property_def)
  from a b c d show ?thesis by (simp only: simp_thms)
qed

section \<open>Properties of the hydration\<close>

subsection \<open>The slots built and the entry written\<close>

lemma find_filter: "find Q (filter P xs) = find (\<lambda>x. P x \<and> Q x) xs"
  by (induction xs) simp_all

lemma initAtId_entry: "evaluation (initAtId idx payload state) idx = Some payload"
proof -
  have "map (\<lambda>model. model\<lparr>metrics := map (\<lambda>metric. metric) (metrics model)\<rparr>) payload = payload"
    by (induction payload) simp_all
  then show ?thesis by (simp add: initAtId_def)
qed

lemma initAtId_other: "idx' \<noteq> idx \<Longrightarrow> evaluation (initAtId idx payload state) idx' = evaluation state idx'"
  by (simp add: initAtId_def)

lemma initAtId_done: "doneForId (initAtId idx payload state) = doneForId state"
  by (simp add: initAtId_def)

lemma existingValue_filter:
  "existingValue (filter (\<lambda>ev. model_response ev = rid) existing) metricDef =
     (case find (\<lambda>ev. model_response ev = rid \<and> metric ev = def_id metricDef) existing of
        None \<Rightarrow> None
      | Some ev \<Rightarrow> if score ev = 0 then None else Some (Num (score ev)))"
  by (simp add: existingValue_def find_filter)

lemma existingValue_Nil: "existingValue [] metricDef = None"
  by (simp add: existingValue_def)

lemma length_defaultScores: "length (defaultScores modelOutputs metricSet existing) = 3"
  by (simp add: defaultScores_def)

lemma defaultScores_nth:
  assumes "index < 3"
  shows "defaultScores modelOutputs metricSet existing ! index =
     \<lparr>responseId =
        (if index < length modelOutputs \<and> output_responseId (modelOutputs ! index) \<noteq> []
         then output_responseId (modelOutputs ! index) else ''model-'' @ decimal_nat (index + 1)),
      metrics = map (\<lambda>metricDef.
         \<lparr>metric_id = def_id metricDef, metric_name = def_name metricDef,
          metric_description = Some (def_description metricDef),
          metric_value =
            (if index < length modelOutputs
             then (case find (\<lambda>ev. model_response ev = output_responseId (modelOutputs ! index) \<and>
                                   metric ev = def_id metricDef) existing of
                     None \<Rightarrow> None
                   | Some ev \<Rightarrow> if score ev = 0 then None else Some (Num (score ev)))
             else None)\<rparr>) metricSet\<rparr>"
proof -
  have "[0..<3] ! index = index" using assms by (metis add_0 nth_upt)
  with assms show ?thesis
    by (simp add: defaultScores_def slot_responseId_def existingValue_filter existingValue_Nil
        del: upt_Suc)
qed

lemma hydration_effect_ready:
  assumes "recordId \<noteq> []" and "metricSet \<noteq> []" and "def_id (hd metricSet) \<noteq> ''0''"
  shows "hydration_effect (Some recordId) modelOutputs metricSet reply st =
         initializeEvaluations recordId modelOutputs metricSet reply st"
  using assms by (simp add: hydration_effect_def)

lemma initializeEvaluations_list:
  "initializeEvaluations recordId modelOutputs metricSet (Resolved (EvaluationList existing)) st =
     st\<lparr>store := initAtId recordId (defaultScores modelOutputs metricSet existing) (store st),
        isSubmitting := False\<rparr>"
  by (simp add: initializeEvaluations_def getExistingEvaluations_def)

lemma initializeEvaluations_rejected:
  "initializeEvaluations recordId modelOutputs metricSet Rejected st =
   initializeEvaluations recordId modelOutputs metricSet (Resolved (EvaluationList [])) st"
  by (simp add: initializeEvaluations_def getExistingEvaluations_def)

subsection \<open>The values of the slots\<close>

text \<open>
  Claim C2, as amended. A hydration of a case with a ready metric set that receives the
  list of remote evaluations writes an entry of exactly three slots. Slot \<open>index\<close> carries
  the response id of output \<open>index\<close> of the case, or the synthetic \<open>model-(index+1)\<close>
  when there is no such output or its id is empty, and one metric record per metric of
  the set, in order. The value for a metric is the score of the first remote evaluation
  whose \<open>model_response\<close> is the response id of that output and whose \<open>metric\<close> is the
  metric id, when there is one and its score is not 0, and \<open>null\<close> otherwise; a slot with
  no output behind it has \<open>null\<close> for every metric.
\<close>

theorem hydration_values:
  assumes "recordId \<noteq> []" and "metricSet \<noteq> []" and "def_id (hd metricSet) \<noteq> ''0''"
  shows "evaluation (store (hydration_effect (Some recordId) modelOutputs metricSet
             (Resolved (EvaluationList existing)) st)) recordId =
           Some (defaultScores modelOutputs metricSet existing) \<and>
         length (defaultScores modelOutputs metricSet existing) = 3 \<and>
         (\<forall>index<3.
            responseId (defaultScores modelOutputs metricSet existing ! index) =
              (if index < length modelOutputs \<and> output_responseId (modelOutputs ! index) \<noteq> []
               then output_responseId (modelOutputs ! index) else ''model-'' @ decimal_nat (index + 1)) \<and>
            map metric_id (metrics (defaultScores modelOutputs metricSet existing ! index)) =
              map def_id metricSet \<and>
            (\<forall>j<length metricSet.
               metric_value (metrics (defaultScores modelOutputs metricSet existing ! index) ! j) =
                 (if index < length modelOutputs
                  then (case find (\<lambda>ev. model_response ev = output_responseId (modelOutputs ! index) \<and>
                                        metric ev = def_id (metricSet ! j)) existing of
                          None \<Rightarrow> None
                        | Some ev \<Rightarrow> if score ev = 0 then None else Some (Num (score ev)))
                  else None)))"
proof (intro conjI allI impI)
  show "evaluation (store (hydration_effect (Some recordId) modelOutputs metricSet
             (Resolved (EvaluationList existing)) st)) recordId =
           Some (defaultScores modelOutputs metricSet existing)"
    by (simp add: hydration_effect_ready [OF assms] initializeEvaluations_list initAtId_entry)
  show "length (defaultScores modelOutputs metricSet existing) = 3"
    by (rule length_defaultScores)
next
  fix index :: nat
  assume index: "index < 3"
  show "responseId (defaultScores modelOutputs metricSet existing ! index) =
              (if index < length modelOutputs \<and> output_responseId (modelOutputs ! index) \<noteq> []
               then output_responseId (modelOutputs ! index) else ''model-'' @ decimal_nat (index + 1))"
    by (simp add: defaultScores_nth [OF index])
  show "map metric_id (metrics (defaultScores modelOutputs metricSet existing ! index)) =
              map def_id metricSet"
    by (simp add: defaultScores_nth [OF index] o_def)
  fix j
  assume j: "j < length metricSet"
  then show "metric_value (metrics (defaultScores modelOutputs metricSet existing ! index) ! j) =
                 (if index < length modelOutputs
                  then (case find (\<lambda>ev. model_response ev = output_responseId (modelOutputs ! index) \<and>
                                        metric ev = def_id (metricSet ! j)) existing of
                          None \<Rightarrow> None
                        | Some ev \<Rightarrow> if score ev = 0 then None else Some (Num (score ev)))
                  else None)"
    by (simp add: defaultScores_nth [OF index])
qed

lemma example_ready:
  "''c1'' \<noteq> []" "example_metrics \<noteq> []" "def_id (hd example_metrics) \<noteq> ''0''"
  by (simp_all add: example_metrics_def)

lemma example_defaultScores:
  "defaultScores example_outputs example_metrics example_remote =
     [\<lparr>responseId = ''model-1'', metrics =
         [\<lparr>metric_id = ''m1'', metric_name = ''Accuracy'', metric_description = Some [], metric_value = Some (Num 4)\<rparr>,
          \<lparr>metric_id = ''m2'', metric_name = ''Relevance'', metric_description = Some [], metric_value = None\<rparr>]\<rparr>,
      \<lparr>responseId = ''model-2'', metrics =
         [\<lparr>metric_id = ''m1'', metric_name = ''Accuracy'', metric_description = Some [], metric_value = None\<rparr>,
          \<lparr>metric_id = ''m2'', metric_name = ''Relevance'', metric_description = Some [], metric_value = None\<rparr>]\<rparr>,
      \<lparr>responseId = ''model-3'', metrics =
         [\<lparr>metric_id = ''m1'', metric_name = ''Accuracy'', metric_description = Some [], metric_value = None\<rparr>,
          \<lparr>metric_id = ''m2'', metric_name = ''Relevance'', metric_description = Some [], metric_value = None\<rparr>]\<rparr>]"
  by (simp add: defaultScores_def example_outputs_def example_metrics_def example_remote_def
      slot_responseId_def existingValue_def upt_rec)

text \<open>The example of the specification, for a case whose outputs are \<open>model-1\<close>,
  \<open>model-2\<close>, \<open>model-3\<close>.\<close>

theorem hydration_values_witness:
  "evaluation (store (hydration_effect (Some ''c1'') example_outputs example_metrics
      (Resolved (EvaluationList example_remote)) blank_page)) ''c1'' =
   Some
     [\<lparr>responseId = ''model-1'', metrics =
         [\<lparr>metric_id = ''m1'', metric_name = ''Accuracy'', metric_description = Some [], metric_value = Some (Num 4)\<rparr>,
          \<lparr>metric_id = ''m2'', metric_name = ''Relevance'', metric_description = Some [], metric_value = None\<rparr>]\<rparr>,
      \<lparr>responseId = ''model-2'', metrics =
         [\<lparr>metric_id = ''m1'', metric_name = ''Accuracy'', metric_description = Some [], metric_value = None\<rparr>,
          \<lparr>metric_id = ''m2'', metric_name = ''Relevance'', metric_description = Some [], metric_value = None\<rparr>]\<rparr>,
      \<lparr>responseId = ''model-3'', metrics =
         [\<lparr>metric_id = ''m1'', metric_name = ''Accuracy'', metric_description = Some [], metric_value = None\<rparr>,
          \<lparr>metric_id = ''m2'', metric_name = ''Relevance'', metric_description = Some [], metric_value = None\<rparr>]\<rparr>]"
  using hydration_values [OF example_ready, THEN conjunct1, of example_outputs example_remote blank_page]
  by (simp only: example_defaultScores)

lemma stored_score_hydrated:
  assumes "recordId \<noteq> []" and "metricSet \<noteq> []" and "def_id (hd metricSet) \<noteq> ''0''"
  shows "stored_score (store (hydration_effect (Some recordId) modelOutputs metricSet
             (Resolved (EvaluationList existing)) st)) recordId rid mid =
         read_score (defaultScores modelOutputs metricSet existing) rid mid"
  by (simp add: hydration_effect_ready [OF assms] initializeEvaluations_list stored_score_def
      initAtId_entry)

text \<open>
  The claim as first stated, the score of the remote evaluation matching the response id
  of the slot and the metric, fails twice: a matching evaluation with score 0 gives
  \<open>null\<close>, and for a case without outputs the slot \<open>model-1\<close> is synthetic, so the
  evaluation of \<open>model-1\<close> with score 4 is not looked at.
\<close>

theorem hydration_values_counterexample:
  "matching_score cleared_remote ''model-1'' ''m1'' = Some 0 \<and>
   stored_score (store (hydration_effect (Some ''c1'') example_outputs example_metrics
      (Resolved (EvaluationList cleared_remote)) blank_page)) ''c1'' ''model-1'' ''m1'' = Some None \<and>
   matching_score example_remote ''model-1'' ''m1'' = Some 4 \<and>
   stored_score (store (hydration_effect (Some ''c1'') [] example_metrics
      (Resolved (EvaluationList example_remote)) blank_page)) ''c1'' ''model-1'' ''m1'' = Some None"
proof -
  have a: "matching_score cleared_remote ''model-1'' ''m1'' = Some 0"
    by (simp add: matching_score_def cleared_remote_def)
  have b: "read_score (defaultScores example_outputs example_metrics cleared_remote) ''model-1'' ''m1'' =
      Some None"
    by (simp add: defaultScores_def example_outputs_def example_metrics_def cleared_remote_def
        slot_responseId_def existingValue_def upt_rec read_score_def)
  have c: "matching_score example_remote ''model-1'' ''m1'' = Some 4"
    by (simp add: matching_score_def example_remote_def)
  have d: "read_score (defaultScores [] example_metrics example_remote) ''model-1'' ''m1'' = Some None"
    by (simp add: defaultScores_def example_metrics_def example_remote_def
        slot_responseId_def existingValue_def upt_rec read_score_def digit_char_def)
  from a b c d show ?thesis
    by (simp only: stored_score_hydrated [OF example_ready] simp_thms)
qed

subsection \<open>A failed request for the evaluations\<close>

lemma all_null_defaultScores:
  "list_all (\<lambda>model. list_all (\<lambda>x. metric_value x = None) (metrics model))
     (defaultScores modelOutputs metricSet [])"
  by (simp add: defaultScores_def list_all_iff existingValue_def)

text \<open>
  Claim C3, as amended. When the request for the evaluations of a case fails, the adapter
  answers with the empty list and the hydration goes on as for a case without remote
  evaluations: the entry of the case is replaced by three slots with \<open>null\<close> for every
  metric, and no toast is raised.
\<close>

theorem hydration_fetch_failure:
  assumes "recordId \<noteq> []" and "metricSet \<noteq> []" and "def_id (hd metricSet) \<noteq> ''0''"
  shows "hydration_effect (Some recordId) modelOutputs metricSet Rejected st =
           hydration_effect (Some recordId) modelOutputs metricSet (Resolved (EvaluationList [])) st \<and>
         evaluation (store (hydration_effect (Some recordId) modelOutputs metricSet Rejected st)) recordId =
           Some (defaultScores modelOutputs metricSet []) \<and>
         length (defaultScores modelOutputs metricSet []) = 3 \<and>
         list_all (\<lambda>model. list_all (\<lambda>x. metric_value x = None) (metrics model))
           (defaultScores modelOutputs metricSet []) \<and>
         toasts (hydration_effect (Some recordId) modelOutputs metricSet Rejected st) = toasts st"
  by (simp add: hydration_effect_ready [OF assms] initializeEvaluations_rejected
      initializeEvaluations_list initAtId_entry length_defaultScores all_null_defaultScores)

theorem hydration_fetch_failure_witness:
  "evaluation (store (hydration_effect (Some ''c1'') example_outputs example_metrics Rejected sample_page)) ''c1'' =
   Some
     [\<lparr>responseId = ''model-1'', metrics =
         [\<lparr>metric_id = ''m1'', metric_name = ''Accuracy'', metric_description = Some [], metric_value = None\<rparr>,
          \<lparr>metric_id = ''m2'', metric_name = ''Relevance'', metric_description = Some [], metric_value = None\<rparr>]\<rparr>,
      \<lparr>responseId = ''model-2'', metrics =
         [\<lparr>metric_id = ''m1'', metric_name = ''Accuracy'', metric_description = Some [], metric_value = None\<rparr>,
          \<lparr>metric_id = ''m2'', metric_name = ''Relevance'', metric_description = Some [], metric_value = None\<rparr>]\<rparr>,
      \<lparr>responseId = ''model-3'', metrics =
         [\<lparr>metric_id = ''m1'', metric_name = ''Accuracy'', metric_description = Some [], metric_value = None\<rparr>,
          \<lparr>metric_id = ''m2'', metric_name = ''Relevance'', metric_description = Some [], metric_value = None\<rparr>]\<rparr>] \<and>
   toasts (hydration_effect (Some ''c1'') example_outputs example_metrics Rejected sample_page) = []"
proof -
  note inst = hydration_fetch_failure [OF example_ready, of example_outputs sample_page]
  have slots: "defaultScores example_outputs example_metrics [] =
     [\<lparr>responseId = ''model-1'', metrics =
         [\<lparr>metric_id = ''m1'', metric_name = ''Accuracy'', metric_description = Some [], metric_value = None\<rparr>,
          \<lparr>metric_id = ''m2'', metric_name = ''Relevance'', metric_description = Some [], metric_value = None\<rparr>]\<rparr>,
      \<lparr>responseId = ''model-2'', metrics =
         [\<lparr>metric_id = ''m1'', metric_name = ''Accuracy'', metric_description = Some [], metric_value = None\<rparr>,
          \<lparr>metric_id = ''m2'', metric_name = ''Relevance'', metric_description = Some [], metric_value = None\<rparr>]\<rparr>,
      \<lparr>responseId = ''model-3'', metrics =
         [\<lparr>metric_id = ''m1'', metric_name = ''Accuracy'', metric_description = Some [], metric_value = None\<rparr>,
          \<lparr>metric_id = ''m2'', metric_name = ''Relevance'', metric_description = Some [], metric_value = None\<rparr>]\<rparr>]"
    by (simp add: defaultScores_def example_outputs_def example_metrics_def
        slot_responseId_def existingValue_def upt_rec)
  have quiet: "toasts sample_page = []" by (simp add: sample_page_def)
  from inst [THEN conjunct2, THEN conjunct1]
    inst [THEN conjunct2, THEN conjunct2, THEN conjunct2, THEN conjunct2]
  show ?thesis by (simp only: slots quiet simp_thms)
qed

text \<open>
  The claim as first stated, the entry is left unchanged and an error notification is
  raised, fails: the stored score 2 of \<open>model-1\<close> on \<open>m1\<close> is \<open>null\<close> after the failed
  request, and there is no toast.
\<close>

theorem hydration_fetch_failure_counterexample:
  "stored_score (store sample_page) ''c1'' ''model-1'' ''m1'' = Some (Some (Num 2)) \<and>
   stored_score (store (hydration_effect (Some ''c1'') example_outputs example_metrics Rejected sample_page))
     ''c1'' ''model-1'' ''m1'' = Some None \<and>
   toasts (hydration_effect (Some ''c1'') example_outputs example_metrics Rejected sample_page) = []"
proof -
  have a: "stored_score (store sample_page) ''c1'' ''model-1'' ''m1'' = Some (Some (Num 2))"
    by (simp add: sample_page_def sample_store_def stored_score_def read_score_def)
  have run: "hydration_effect (Some ''c1'') example_outputs example_metrics Rejected sample_page =
     sample_page\<lparr>store := initAtId ''c1'' (defaultScores example_outputs example_metrics []) (store sample_page),
        isSubmitting := False\<rparr>"
    by (simp add: hydration_effect_ready [OF example_ready] initializeEvaluations_rejected
        initializeEvaluations_list)
  have b: "read_score (defaultScores example_outputs example_metrics []) ''model-1'' ''m1'' = Some None"
    by (simp add: defaultScores_def example_outputs_def example_metrics_def
        slot_responseId_def existingValue_def upt_rec read_score_def)
  have c: "toasts sample_page = []" by (simp add: sample_page_def)
  from a b c show ?thesis
    by (simp add: run stored_score_def initAtId_entry)
qed

section \<open>Properties of the ground truth\<close>

lemma extract_report_no_fields:
  "extract_report (JArray vs) = empty_report" "extract_report (JBool b) = empty_report"
  "extract_report (JNumber n) = empty_report" "extract_report (JString s) = empty_report"
  by (simp_all add: extract_report_def get_field_def js_or_def empty_report_def)

text \<open>
  Claim C9, as amended. The ground truth of a payload is decided by this table, for any
  behaviour of \<open>JSON.parse\<close>, and no case raises: an object is read directly (an array
  has no report fields and gives empty strings); a string whose trimmed text starts with
  \<open>{\<close> and that parses is parsed and read; a string that starts with \<open>{\<close> and does not
  parse, and every string that does not start with \<open>{\<close>, is the findings, with empty
  impressions; anything else gives empty findings and impressions.
\<close>

theorem groundTruth_decision_table:
  "groundTruth JSON_parse (Some (JObject kvs)) = extract_report (JObject kvs) \<and>
   groundTruth JSON_parse (Some (JArray vs)) = empty_report \<and>
   (startsWith (trim s) ''{'' \<and> JSON_parse s = Some parsed \<and> parsed \<noteq> JNull \<longrightarrow>
      groundTruth JSON_parse (Some (JString s)) = extract_report parsed) \<and>
   (startsWith (trim s) ''{'' \<and> JSON_parse s \<in> {None, Some JNull} \<longrightarrow>
      groundTruth JSON_parse (Some (JString s)) = plain_report s) \<and>
   (\<not> startsWith (trim s) ''{'' \<longrightarrow> groundTruth JSON_parse (Some (JString s)) = plain_report s) \<and>
   groundTruth JSON_parse None = empty_report \<and>
   groundTruth JSON_parse (Some JNull) = empty_report \<and>
   groundTruth JSON_parse (Some (JBool b)) = empty_report \<and>
   groundTruth JSON_parse (Some (JNumber n)) = empty_report"
proof (intro conjI impI; (elim conjE)?)
  show "groundTruth JSON_parse (Some (JObject kvs)) = extract_report (JObject kvs)"
    by (simp add: groundTruth_def)
  show "groundTruth JSON_parse (Some (JArray vs)) = empty_report"
    by (simp add: groundTruth_def extract_report_no_fields)
  show "groundTruth JSON_parse (Some (JString s)) = extract_report parsed"
    if "startsWith (trim s) ''{''" "JSON_parse s = Some parsed" "parsed \<noteq> JNull"
    using that by (cases parsed) (simp_all add: groundTruth_def)
  show "groundTruth JSON_parse (Some (JString s)) = plain_report s"
    if "startsWith (trim s) ''{''" "JSON_parse s \<in> {None, Some JNull}"
    using that by (auto simp add: groundTruth_def)
  show "groundTruth JSON_parse (Some (JString s)) = plain_report s"
    if "\<not> startsWith (trim s) ''{''"
    using that by (simp add: groundTruth_def)
  show "groundTruth JSON_parse None = empty_report"
    "groundTruth JSON_parse (Some JNull) = empty_report"
    "groundTruth JSON_parse (Some (JBool b)) = empty_report"
    "groundTruth JSON_parse (Some (JNumber n)) = empty_report"
    by (simp_all add: groundTruth_def)
qed

theorem groundTruth_decision_table_witness:
  "groundTruth sample_parse
     (Some (JString '' {\"findings\": \"Clear lungs.\", \"impression\": \"Normal.\"}'')) =
     \<lparr>findings = JString ''Clear lungs.'', impressions = JString ''Normal.''\<rparr> \<and>
   groundTruth sample_parse (Some (JString ''{findings: Clear lungs.'')) =
     \<lparr>findings = JString ''{findings: Clear lungs.'', impressions = JString []\<rparr> \<and>
   groundTruth sample_parse (Some (JString ''Clear lungs.'')) =
     \<lparr>findings = JString ''Clear lungs.'', impressions = JString []\<rparr>"
proof -
  let ?text = "'' {\"findings\": \"Clear lungs.\", \"impression\": \"Normal.\"}''"
  let ?parsed = "JObject [(''findings'', JString ''Clear lungs.''), (''impression'', JString ''Normal.'')]"
  have object: "startsWith (trim ?text) ''{'' \<and> sample_parse ?text = Some ?parsed \<and> ?parsed \<noteq> JNull"
    by (simp add: startsWith_def trim_def is_space_def sample_parse_def)
  have broken: "startsWith (trim ''{findings: Clear lungs.'') ''{'' \<and>
      sample_parse ''{findings: Clear lungs.'' \<in> {None, Some JNull}"
    by (simp add: startsWith_def trim_def is_space_def sample_parse_def)
  have plain: "\<not> startsWith (trim ''Clear lungs.'') ''{''"
    by (simp add: startsWith_def trim_def is_space_def)
  have a: "groundTruth sample_parse (Some (JString ?text)) = extract_report ?parsed"
    using groundTruth_decision_table [of sample_parse _ _ ?text ?parsed, THEN conjunct2, THEN conjunct2,
      THEN conjunct1, THEN mp, OF object] .
  have b: "groundTruth sample_parse (Some (JString ''{findings: Clear lungs.'')) =
      plain_report ''{findings: Clear lungs.''"
    using groundTruth_decision_table [of sample_parse _ _ "''{findings: Clear lungs.''", THEN conjunct2,
      THEN conjunct2, THEN conjunct2, THEN conjunct1, THEN mp, OF broken] .
  have c: "groundTruth sample_parse (Some (JString ''Clear lungs.'')) = plain_report ''Clear lungs.''"
    using groundTruth_decision_table [of sample_parse _ _ "''Clear lungs.''", THEN conjunct2,
      THEN conjunct2, THEN conjunct2, THEN conjunct2, THEN conjunct1, THEN mp, OF plain] .
  have d: "extract_report ?parsed =
      \<lparr>findings = JString ''Clear lungs.'', impressions = JString ''Normal.''\<rparr>"
    by (simp add: extract_report_def get_field_def js_or_def)
  from a b c d show ?thesis by (simp add: plain_report_def)
qed

text \<open>
  The table as first stated, every string parseable as JSON is parsed, fails for the
  text \<open>[]\<close>: it parses to an array, whose report would be empty, but the source does
  not parse a text that does not start with \<open>{\<close> and returns it as the findings.
\<close>

theorem groundTruth_table_counterexample:
  "sample_parse ''[]'' = Some (JArray []) \<and>
   groundTruth_table sample_parse (Some (JString ''[]'')) =
     \<lparr>findings = JString [], impressions = JString []\<rparr> \<and>
   groundTruth sample_parse (Some (JString ''[]'')) =
     \<lparr>findings = JString ''[]'', impressions = JString []\<rparr>"
  by (simp add: sample_parse_def groundTruth_table_def groundTruth_def extract_report_no_fields
      empty_report_def plain_report_def startsWith_def trim_def is_space_def)

section \<open>Properties of \<open>initAtId\<close> on the heap\<close>

subsection \<open>Reading after an allocation\<close>

lemma deref_append: "deref h a = Some obj \<Longrightarrow> deref (h @ ext) a = Some obj"
  by (auto simp add: deref_def nth_append split: if_splits)

lemma deref_fresh: "deref (g @ obj # ext) (length g) = Some obj"
  by (simp add: deref_def)

lemma read_metrics_append:
  "read_metrics h as = Some ms \<Longrightarrow> read_metrics (h @ ext) as = Some ms"
proof (induction as arbitrary: ms)
  case Nil
  then show ?case by simp
next
  case (Cons a as)
  from Cons.prems obtain m ms' where a: "deref h a = Some (MetricObject m)"
    and rest: "read_metrics h as = Some ms'" and ms: "ms = m # ms'"
    by (auto split: option.splits heap_object.splits)
  from Cons.IH [OF rest] deref_append [OF a] ms show ?case by simp
qed

lemma read_response_append:
  "read_response h a = Some model \<Longrightarrow> read_response (h @ ext) a = Some model"
proof -
  assume r: "read_response h a = Some model"
  then obtain rid ma as ms where a: "deref h a = Some (ResponseObject rid ma)"
    and ma: "deref h ma = Some (ArrayObject as)" and ms: "read_metrics h as = Some ms"
    and model: "model = \<lparr>responseId = rid, metrics = ms\<rparr>"
    by (auto simp add: read_response_def split: option.splits heap_object.splits)
  from deref_append [OF a] deref_append [OF ma] read_metrics_append [OF ms] model
  show ?thesis by (simp add: read_response_def)
qed

lemma read_responses_append:
  "read_responses h as = Some slots \<Longrightarrow> read_responses (h @ ext) as = Some slots"
proof (induction as arbitrary: slots)
  case Nil
  then show ?case by simp
next
  case (Cons a as)
  from Cons.prems obtain model slots' where a: "read_response h a = Some model"
    and rest: "read_responses h as = Some slots'" and slots: "slots = model # slots'"
    by (auto split: option.splits)
  from Cons.IH [OF rest] read_response_append [OF a] slots show ?case by simp
qed

lemma read_entry_append:
  "read_entry h a = Some slots \<Longrightarrow> read_entry (h @ ext) a = Some slots"
proof -
  assume r: "read_entry h a = Some slots"
  then obtain as where a: "deref h a = Some (ArrayObject as)"
    and slots: "read_responses h as = Some slots"
    by (auto simp add: read_entry_def split: option.splits heap_object.splits)
  from deref_append [OF a] read_responses_append [OF slots]
  show ?thesis by (simp add: read_entry_def)
qed

subsection \<open>A copy reads like the original and lives in fresh objects only\<close>

lemma copy_metrics_fresh:
  "read_metrics h as = Some ms \<Longrightarrow>
   \<exists>ext bs. copy_metrics h as = Some (h @ ext, bs) \<and>
     (\<forall>g. length g = length h \<longrightarrow> read_metrics (g @ ext) bs = Some ms)"
proof (induction as arbitrary: h ms)
  case Nil
  then show ?case by simp
next
  case (Cons a as)
  from Cons.prems obtain m ms' where a: "deref h a = Some (MetricObject m)"
    and rest: "read_metrics h as = Some ms'" and ms: "ms = m # ms'"
    by (auto split: option.splits heap_object.splits)
  have "read_metrics (h @ [MetricObject m]) as = Some ms'"
    using rest by (rule read_metrics_append)
  from Cons.IH [OF this] obtain ext bs
    where copy: "copy_metrics (h @ [MetricObject m]) as = Some ((h @ [MetricObject m]) @ ext, bs)"
      and fresh: "\<forall>g. length g = length (h @ [MetricObject m]) \<longrightarrow> read_metrics (g @ ext) bs = Some ms'"
    by blast
  have "copy_metrics h (a # as) = Some (h @ (MetricObject m # ext), length h # bs)"
    using a copy by (simp add: alloc_def)
  moreover have "read_metrics (g @ (MetricObject m # ext)) (length h # bs) = Some ms"
    if len: "length g = length h" for g
  proof -
    have "read_metrics ((g @ [MetricObject m]) @ ext) bs = Some ms'"
      using fresh [rule_format, of "g @ [MetricObject m]"] len by simp
    then show ?thesis
      using deref_fresh [of g "MetricObject m" ext] len ms by simp
  qed
  ultimately show ?case by blast
qed

lemma copy_response_fresh:
  assumes "read_response h a = Some model"
  shows "\<exists>ext b. copy_response h a = Some (h @ ext, b) \<and>
     (\<forall>g. length g = length h \<longrightarrow> read_response (g @ ext) b = Some model)"
proof -
  from assms obtain rid ma as ms where a: "deref h a = Some (ResponseObject rid ma)"
    and ma: "deref h ma = Some (ArrayObject as)" and ms: "read_metrics h as = Some ms"
    and model: "model = \<lparr>responseId = rid, metrics = ms\<rparr>"
    by (auto simp add: read_response_def split: option.splits heap_object.splits)
  from copy_metrics_fresh [OF ms] obtain ext bs
    where copy: "copy_metrics h as = Some (h @ ext, bs)"
      and fresh: "\<forall>g. length g = length h \<longrightarrow> read_metrics (g @ ext) bs = Some ms"
    by blast
  let ?ext = "ext @ [ArrayObject bs, ResponseObject rid (length h + length ext)]"
  have "copy_response h a = Some (h @ ?ext, Suc (length h + length ext))"
    using a ma copy by (simp add: copy_response_def alloc_def)
  moreover have "read_response (g @ ?ext) (Suc (length h + length ext)) = Some model"
    if len: "length g = length h" for g
  proof -
    have "read_metrics (g @ ext) bs = Some ms" using fresh len by simp
    then have "read_metrics ((g @ ext) @ [ArrayObject bs, ResponseObject rid (length h + length ext)]) bs =
        Some ms"
      by (rule read_metrics_append)
    moreover have "deref (g @ ?ext) (Suc (length h + length ext)) =
        Some (ResponseObject rid (length h + length ext))"
      using len by (simp add: deref_def nth_append)
    moreover have "deref (g @ ?ext) (length h + length ext) = Some (ArrayObject bs)"
      using len by (simp add: deref_def nth_append)
    ultimately show ?thesis using model by (simp add: read_response_def)
  qed
  ultimately show ?thesis by blast
qed

lemma copy_responses_fresh:
  "read_responses h as = Some slots \<Longrightarrow>
   \<exists>ext bs. copy_responses h as = Some (h @ ext, bs) \<and>
     (\<forall>g. length g = length h \<longrightarrow> read_responses (g @ ext) bs = Some slots)"
proof (induction as arbitrary: h slots)
  case Nil
  then show ?case by simp
next
  case (Cons a as)
  from Cons.prems obtain model slots' where a: "read_response h a = Some model"
    and rest: "read_responses h as = Some slots'" and slots: "slots = model # slots'"
    by (auto split: option.splits)
  from copy_response_fresh [OF a] obtain ext1 b
    where copy1: "copy_response h a = Some (h @ ext1, b)"
      and fresh1: "\<forall>g. length g = length h \<longrightarrow> read_response (g @ ext1) b = Some model"
    by blast
  have "read_responses (h @ ext1) as = Some slots'"
    using rest by (rule read_responses_append)
  from Cons.IH [OF this] obtain ext2 bs
    where copy2: "copy_responses (h @ ext1) as = Some ((h @ ext1) @ ext2, bs)"
      and fresh2: "\<forall>g. length g = length (h @ ext1) \<longrightarrow> read_responses (g @ ext2) bs = Some slots'"
    by blast
  have "copy_responses h (a # as) = Some (h @ (ext1 @ ext2), b # bs)"
    using copy1 copy2 by simp
  moreover have "read_responses (g @ (ext1 @ ext2)) (b # bs) = Some slots"
    if len: "length g = length h" for g
  proof -
    have "read_response (g @ ext1) b = Some model" using fresh1 len by simp
    then have "read_response ((g @ ext1) @ ext2) b = Some model"
      by (rule read_response_append)
    moreover have "read_responses ((g @ ext1) @ ext2) bs = Some slots'"
      using fresh2 [rule_format, of "g @ ext1"] len by simp
    ultimately show ?thesis using slots by simp
  qed
  ultimately show ?case by blast
qed

lemma initAtId_heap_fresh:
  assumes "read_entry (objects st) payload = Some slots"
  shows "\<exists>ext b. initAtId_heap idx payload st =
             Some (st\<lparr>objects := objects st @ ext, entries := (entries st)(idx \<mapsto> b)\<rparr>) \<and>
     (\<forall>g. length g = length (objects st) \<longrightarrow> read_entry (g @ ext) b = Some slots)"
proof -
  from assms obtain as where a: "deref (objects st) payload = Some (ArrayObject as)"
    and slots: "read_responses (objects st) as = Some slots"
    by (auto simp add: read_entry_def split: option.splits heap_object.splits)
  from copy_responses_fresh [OF slots] obtain ext bs
    where copy: "copy_responses (objects st) as = Some (objects st @ ext, bs)"
      and fresh: "\<forall>g. length g = length (objects st) \<longrightarrow> read_responses (g @ ext) bs = Some slots"
    by blast
  let ?ext = "ext @ [ArrayObject bs]"
  let ?b = "length (objects st) + length ext"
  have "initAtId_heap idx payload st =
      Some (st\<lparr>objects := objects st @ ?ext, entries := (entries st)(idx \<mapsto> ?b)\<rparr>)"
    using a copy by (simp add: initAtId_heap_def alloc_def)
  moreover have "read_entry (g @ ?ext) ?b = Some slots" if len: "length g = length (objects st)" for g
  proof -
    have "read_responses (g @ ext) bs = Some slots" using fresh len by simp
    then have "read_responses ((g @ ext) @ [ArrayObject bs]) bs = Some slots"
      by (rule read_responses_append)
    moreover have "deref (g @ ?ext) ?b = Some (ArrayObject bs)"
      using len by (simp add: deref_def nth_append)
    ultimately show ?thesis by (simp add: read_entry_def)
  qed
  ultimately show ?thesis by blast
qed

lemma length_overwrite: "length (overwrite writes h) = length h"
  unfolding overwrite_def by (induction writes arbitrary: h) (simp_all add: split_beta)

lemma overwrite_append:
  "list_all (\<lambda>(a, obj). a < length h) writes \<Longrightarrow>
   overwrite writes (h @ ext) = overwrite writes h @ ext"
  unfolding overwrite_def
  by (induction writes arbitrary: h) (auto simp add: list_update_append1)

subsection \<open>Isolation of the stored entry\<close>

text \<open>
  Claim C8. On values, the entry of the case after \<open>initAtId\<close> is the response list
  passed. On the heap, when the payload reads as the response list \<open>slots\<close>, \<open>initAtId\<close>
  succeeds and the entry stored for the case reads as \<open>slots\<close>; it still does after any sequence
  of writes into objects that existed before the call, which are all the objects of the
  payload (its array, its responses, their metric arrays and metric records), and after
  any later allocation.
\<close>

theorem initAtId_heap_isolation:
  assumes "read_entry (objects st) payload = Some slots"
  shows "(\<forall>state. evaluation (initAtId idx slots state) idx = Some slots) \<and>
         (\<exists>st' b. initAtId_heap idx payload st = Some st' \<and>
           entries st' idx = Some b \<and>
           read_entry (objects st') b = Some slots \<and>
           (\<forall>writes allocated.
              list_all (\<lambda>(a, obj). a < length (objects st)) writes \<longrightarrow>
              read_entry (overwrite writes (objects st') @ allocated) b = Some slots))"
proof -
  from initAtId_heap_fresh [OF assms, of idx] obtain ext b
    where init: "initAtId_heap idx payload st =
             Some (st\<lparr>objects := objects st @ ext, entries := (entries st)(idx \<mapsto> b)\<rparr>)"
      and fresh: "\<forall>g. length g = length (objects st) \<longrightarrow> read_entry (g @ ext) b = Some slots"
    by blast
  let ?st' = "st\<lparr>objects := objects st @ ext, entries := (entries st)(idx \<mapsto> b)\<rparr>"
  have stored: "read_entry (objects ?st') b = Some slots"
    using fresh by simp
  have isolated: "read_entry (overwrite writes (objects ?st') @ allocated) b = Some slots"
    if old: "list_all (\<lambda>(a, obj). a < length (objects st)) writes" for writes allocated
  proof -
    have "read_entry (overwrite writes (objects st) @ ext) b = Some slots"
      using fresh length_overwrite [of writes "objects st"] by simp
    then have "read_entry ((overwrite writes (objects st) @ ext) @ allocated) b = Some slots"
      by (rule read_entry_append)
    then show ?thesis
      using overwrite_append [OF old, of ext] by simp
  qed
  from init stored isolated
  have "\<exists>st' b. initAtId_heap idx payload st = Some st' \<and>
           entries st' idx = Some b \<and>
           read_entry (objects st') b = Some slots \<and>
           (\<forall>writes allocated.
              list_all (\<lambda>(a, obj). a < length (objects st)) writes \<longrightarrow>
              read_entry (overwrite writes (objects st') @ allocated) b = Some slots)"
    by (intro exI [of _ ?st'] exI [of _ b]) simp
  then show ?thesis by (simp add: initAtId_entry)
qed

theorem initAtId_heap_isolation_witness:
  "read_entry (objects sample_heap_store) 4 = Some sample_entry \<and>
   read_entry (overwrite sample_writes (objects sample_heap_store)) 4 = Some [] \<and>
   entries (the (initAtId_heap ''c1'' 4 sample_heap_store)) ''c1'' = Some 9 \<and>
   read_entry (overwrite sample_writes (objects (the (initAtId_heap ''c1'' 4 sample_heap_store)))) 9 =
     Some sample_entry"
proof -
  have payload: "read_entry (objects sample_heap_store) 4 = Some sample_entry"
    by (simp add: sample_heap_store_def sample_entry_def read_entry_def read_response_def deref_def)
  have changed: "read_entry (overwrite sample_writes (objects sample_heap_store)) 4 = Some []"
    by (simp add: sample_heap_store_def sample_writes_def overwrite_def read_entry_def deref_def)
  have old: "list_all (\<lambda>(a, obj). a < length (objects sample_heap_store)) sample_writes"
    by (simp add: sample_heap_store_def sample_writes_def)
  from initAtId_heap_isolation [OF payload, of "''c1''"] obtain st' b
    where init: "initAtId_heap ''c1'' 4 sample_heap_store = Some st'"
      and entry: "entries st' ''c1'' = Some b"
      and isolated: "\<forall>writes allocated.
              list_all (\<lambda>(a, obj). a < length (objects sample_heap_store)) writes \<longrightarrow>
              read_entry (overwrite writes (objects st') @ allocated) b = Some sample_entry"
    by blast
  have "entries (the (initAtId_heap ''c1'' 4 sample_heap_store)) ''c1'' = Some 9"
    by (simp add: sample_heap_store_def initAtId_heap_def copy_response_def deref_def alloc_def)
  with init entry have b: "b = 9" by simp
  from isolated [rule_format, OF old, of "[]"] b init
  have "read_entry (overwrite sample_writes (objects (the (initAtId_heap ''c1'' 4 sample_heap_store)))) 9 =
     Some sample_entry"
    by simp
  with payload changed init entry b show ?thesis by simp
qed

end
